theory Spec2Isabelle
  imports Complex_Main
begin

section \<open>Numbers and pure helpers of \<open>topic_indicator_computor.js\<close>\<close>

text \<open>
  The module under study is \<open>src/backend/topic_indicator_computor.js\<close>; the Topic
  document is the Mongoose schema \<open>topic_model.js\<close> (\<open>src/unnamed/part_000\<close>).
  JavaScript numbers are modelled as \<^typ>\<open>real\<close>: the arithmetic of the module
  (sums, one division, \<open>Math.log10\<close>) is read exactly, without the rounding of IEEE
  doubles and without \<open>NaN\<close> or infinities. A number that may be missing
  (\<open>undefined\<close> or \<open>null\<close>) is a \<^typ>\<open>real option\<close>.
\<close>

text \<open>
  \<^verbatim>\<open>
  const INDICATOR_WEIGHTS = {
    impact: { citations: 0.55, works: 0.25, wikiViews: 0.2 },
    activity: { works12m: 0.45, citations12m: 0.35, wikiViews: 0.2 },
  };
  \<close>
\<close>

definition impact_citations :: real where "impact_citations = 0.55"
definition impact_works :: real where "impact_works = 0.25"
definition impact_wikiViews :: real where "impact_wikiViews = 0.2"
definition activity_works12m :: real where "activity_works12m = 0.45"
definition activity_citations12m :: real where "activity_citations12m = 0.35"
definition activity_wikiViews :: real where "activity_wikiViews = 0.2"

text \<open>\<open>const log10p = (value) => Math.log10(value + 1)\<close>\<close>

definition log10p :: "real \<Rightarrow> real" where
  "log10p value = log 10 (value + 1)"

text \<open>
  JavaScript truthiness of a number that may be missing: \<open>!x\<close> holds for
  \<open>undefined\<close>, \<open>null\<close> and \<open>0\<close>.
\<close>

fun truthy :: "real option \<Rightarrow> bool" where
  "truthy None = False"
| "truthy (Some x) = (x \<noteq> 0)"

text \<open>The number \<open>x || 0\<close>: \<open>0\<close> for a missing \<open>x\<close>, \<open>x\<close> itself otherwise.\<close>

fun orZero :: "real option \<Rightarrow> real" where
  "orZero None = 0"
| "orZero (Some x) = x"

text \<open>
  \<^verbatim>\<open>
  const estimateCitations12m = (citedByCount, worksCount, works12m) => {
    if (!worksCount || !citedByCount || !works12m) { return 0; }
    const averageCitationsPerWork = citedByCount / worksCount;
    return works12m * averageCitationsPerWork;
  };
  \<close>
\<close>

definition estimateCitations12m :: "real option \<Rightarrow> real option \<Rightarrow> real option \<Rightarrow> real" where
  "estimateCitations12m citedByCount worksCount works12m =
     (if \<not> truthy worksCount \<or> \<not> truthy citedByCount \<or> \<not> truthy works12m then 0
      else let averageCitationsPerWork = orZero citedByCount / orZero worksCount
           in orZero works12m * averageCitationsPerWork)"

text \<open>
  \<open>Array.prototype.findIndex\<close>: the index of the first element satisfying the
  predicate, \<open>-1\<close> when there is none. \<open>findLastIndex\<close> is the same search from
  the end of the array.
\<close>

fun findIndexFrom :: "('a \<Rightarrow> bool) \<Rightarrow> 'a list \<Rightarrow> int \<Rightarrow> int" where
  "findIndexFrom p [] k = - 1"
| "findIndexFrom p (x # xs) k = (if p x then k else findIndexFrom p xs (k + 1))"

definition findIndex :: "('a \<Rightarrow> bool) \<Rightarrow> 'a list \<Rightarrow> int" where
  "findIndex p xs = findIndexFrom p xs 0"

definition findLastIndex :: "('a \<Rightarrow> bool) \<Rightarrow> 'a list \<Rightarrow> int" where
  "findLastIndex p xs =
     (let k = findIndex p (rev xs)
      in if k < 0 then - 1 else int (length xs) - 1 - k)"

text \<open>
  \<^verbatim>\<open>
  const percentileRank = (sortedValues, value) => {
    if (!sortedValues.length) { return 0; }
    if (sortedValues.length === 1) { return 100; }
    const firstIndex = sortedValues.findIndex((item) => item === value);
    const lastIndex = sortedValues.findLastIndex((item) => item === value);
    const rank = (firstIndex + lastIndex) / 2;
    return (rank / (sortedValues.length - 1)) * 100;
  };
  \<close>
\<close>

definition percentileRank :: "real list \<Rightarrow> real \<Rightarrow> real" where
  "percentileRank sortedValues v =
     (if length sortedValues = 0 then 0
      else if length sortedValues = 1 then 100
      else let firstIndex = findIndex (\<lambda>item. item = v) sortedValues;
               lastIndex = findLastIndex (\<lambda>item. item = v) sortedValues;
               rank = real_of_int (firstIndex + lastIndex) / 2
           in (rank / (real (length sortedValues) - 1)) * 100)"

text \<open>
  The rank in the words of the specification, to compare \<open>percentileRank\<close> with: sort
  the batch ascending, take the first and the last index at which the value occurs,
  average them, divide by \<open>count - 1\<close> and scale by \<open>100\<close>; a batch of one ranks
  \<open>100\<close>, an empty batch \<open>0\<close>.
\<close>

definition occurrences :: "real list \<Rightarrow> real \<Rightarrow> nat list" where
  "occurrences xs v = filter (\<lambda>i. xs ! i = v) [0..<length xs]"

definition percentileRank_spec :: "real list \<Rightarrow> real \<Rightarrow> real" where
  "percentileRank_spec raw v =
     (let sorted = sort raw; occ = set (occurrences sorted v)
      in if raw = [] then 0
         else if length raw = 1 then 100
         else (real (Min occ) + real (Max occ)) / 2 / (real (length raw) - 1) * 100)"

text \<open>
  \<open>Number(x.toFixed(2))\<close>: the nearest multiple of \<open>1/100\<close>, a tie going to the
  larger magnitude (\<open>toFixed\<close> rounds the absolute value and restores the sign).
\<close>

definition toFixed2 :: "real \<Rightarrow> real" where
  "toFixed2 x =
     (if x < 0 then - (real_of_int \<lfloor>- x * 100 + 1 / 2\<rfloor> / 100)
      else real_of_int \<lfloor>x * 100 + 1 / 2\<rfloor> / 100)"

section \<open>The Topic document and the outside world\<close>

text \<open>
  The Topic schema, with the nested \<open>metrics\<close> block flattened: a field
  \<open>metrics.openalex.citedByCount\<close> is \<open>openalex_citedByCount\<close> and so on. Dates are
  milliseconds since the epoch, \<open>null\<close> is \<open>None\<close>. \<open>tid\<close> is the document's
  \<open>_id\<close>. The counts and id lists of articles and casts, which this module never
  touches, are left out.
\<close>

record topic_metrics =
  openalex_citedByCount :: real
  openalex_worksCount :: real
  openalex_worksLast12Months :: real
  openalex_lastFetchedAt :: "nat option"
  openalex_lastWorksFetchedAt :: "nat option"
  wikipedia_title :: "string option"
  wikipedia_views12Months :: real
  wikipedia_lastFetchedAt :: "nat option"
  lastComputedAt :: "nat option"
  lastError :: "string option"
  backoffUntil :: "nat option"

record topic =
  tid :: nat
  name :: string
  departmentName :: string
  openalexID :: "string option"
  activity :: real
  impact :: real
  metrics :: topic_metrics

text \<open>The four \<open>axios.get\<close> requests of the module, each with what identifies it.\<close>

datatype request =
    OpenAlexTopic string
  | OpenAlexWorks string string string
  | WikipediaSearch string
  | WikimediaPageviews string string string

text \<open>
  What the module writes to the console, one constructor per call site
  (\<open>WarnWikipediaLookup\<close> is written by the second copy of the module only).
\<close>

datatype console_event =
    ErrorOpenAlexMetrics string string
  | ErrorOpenAlexWorks12m string string
  | WarnNoOpenalexID string
  | WarnWikipediaPageviews string string
  | WarnWikipediaLookup string string
  | LogUpdatedTopic string real real
  | ErrorComputingTopic string string
  | LogFoundTopics nat
  | LogCompleted
  | ErrorComputingAll string

text \<open>The body of an OpenAlex \<open>/topics/{id}\<close> response, as far as it is read.\<close>

record topics_data =
  cited_by_count :: "real option"
  works_count :: "real option"

text \<open>The result of \<open>getLast12MonthsRange\<close>.\<close>

record date_range =
  startDate :: string
  endDate :: string
  startCompact :: string
  endCompact :: string

text \<open>
  Everything the module does not decide itself. A provider answers a request given the
  requests issued before it, with \<open>Inl message\<close> when \<open>axios.get\<close> rejects, so that a
  provider may fail once and answer later. \<open>Topic.find()\<close> rejects with \<open>findError\<close>
  when that is set, \<open>topic.save()\<close> rejects with \<open>saveError\<close> of the document.
  The clock is read through \<open>last12MonthsRange\<close> and \<open>currentTime\<close>
  (\<open>new Date()\<close>, in milliseconds; only the second copy of the module reads it),
  both taken as constant during a run;
  \<open>isTestEnv\<close> is \<open>process.env.NODE_ENV === 'test'\<close>.
\<close>

record env =
  isTestEnv :: bool
  last12MonthsRange :: date_range
  currentTime :: nat
  getTopics :: "request list \<Rightarrow> string \<Rightarrow> string + topics_data option"
  getWorks :: "request list \<Rightarrow> string \<Rightarrow> string \<Rightarrow> string \<Rightarrow> string + real option"
  getSearch :: "request list \<Rightarrow> string \<Rightarrow> string + string option"
  getPageviews :: "request list \<Rightarrow> string \<Rightarrow> string \<Rightarrow> string \<Rightarrow> string + real option list option"
  findError :: "string option"
  saveError :: "topic \<Rightarrow> string option"

text \<open>
  The state the module acts on: the persisted Topic collection, the requests issued
  so far (oldest first) and the console.
\<close>

record world =
  db :: "topic list"
  calls :: "request list"
  console :: "console_event list"

definition axios_get :: "request \<Rightarrow> world \<Rightarrow> world" where
  "axios_get r w = w\<lparr>calls := calls w @ [r]\<rparr>"

definition console_write :: "console_event \<Rightarrow> world \<Rightarrow> world" where
  "console_write e w = w\<lparr>console := console w @ [e]\<rparr>"

text \<open>\<open>topic.save()\<close>: the stored document with the same \<open>_id\<close> is replaced.\<close>

definition save :: "env \<Rightarrow> topic \<Rightarrow> world \<Rightarrow> (string + unit) \<times> world" where
  "save env t w =
     (case saveError env t of
        Some e \<Rightarrow> (Inl e, w)
      | None \<Rightarrow> (Inr (), w\<lparr>db := map (\<lambda>u. if tid u = tid t then t else u) (db w)\<rparr>))"

section \<open>The fetchers\<close>

text \<open>
  \<^verbatim>\<open>
  const fetchOpenAlexTopicMetrics = async (openalexID) => {
    if (!openalexID || isTestEnv) { return { citedByCount: 0, worksCount: 0 }; }
    const openAlexUrl = `${OPENALEX_BASE_URL}/topics/${openalexID}`;
    const response = await axios.get(openAlexUrl);
    const data = response.data || {};
    return { citedByCount: data.cited_by_count || 0, worksCount: data.works_count || 0 };
  };
  \<close>
  The parameter \<open>openalexID\<close> is \<open>key\<close> here (the record field has the name).
  The result is the pair \<open>(citedByCount, worksCount)\<close>; \<open>Inl\<close> is the rejection.
\<close>

definition fetchOpenAlexTopicMetrics ::
  "env \<Rightarrow> string option \<Rightarrow> world \<Rightarrow> (string + real \<times> real) \<times> world" where
  "fetchOpenAlexTopicMetrics env key w =
     (case key of
        None \<Rightarrow> (Inr (0, 0), w)
      | Some ident \<Rightarrow>
          if ident = [] \<or> isTestEnv env then (Inr (0, 0), w)
          else (case getTopics env (calls w) ident of
                  Inl e \<Rightarrow> (Inl e, axios_get (OpenAlexTopic ident) w)
                | Inr response_data \<Rightarrow>
                    (let data = (case response_data of
                                   None \<Rightarrow> \<lparr>cited_by_count = None, works_count = None\<rparr>
                                 | Some d \<Rightarrow> d)
                     in (Inr (orZero (cited_by_count data), orZero (works_count data)),
                         axios_get (OpenAlexTopic ident) w))))"

text \<open>
  \<^verbatim>\<open>
  const fetchOpenAlexWorksCountLast12Months = async (openalexID, startDate, endDate) => {
    if (!openalexID || isTestEnv) { return 0; }
    const filter = `topics.id:${openalexID},from_publication_date:${startDate},...`;
    const response = await axios.get(`${OPENALEX_BASE_URL}/works`, { params: ... });
    return response.data?.meta?.count || 0;
  };
  \<close>
\<close>

definition fetchOpenAlexWorksCountLast12Months ::
  "env \<Rightarrow> string option \<Rightarrow> string \<Rightarrow> string \<Rightarrow> world \<Rightarrow> (string + real) \<times> world" where
  "fetchOpenAlexWorksCountLast12Months env key fromDate toDate w =
     (case key of
        None \<Rightarrow> (Inr 0, w)
      | Some ident \<Rightarrow>
          if ident = [] \<or> isTestEnv env then (Inr 0, w)
          else (case getWorks env (calls w) ident fromDate toDate of
                  Inl e \<Rightarrow> (Inl e, axios_get (OpenAlexWorks ident fromDate toDate) w)
                | Inr count \<Rightarrow> (Inr (orZero count), axios_get (OpenAlexWorks ident fromDate toDate) w)))"

text \<open>
  \<open>title.replace(/ /g, '_')\<close>. The percent-encoding that follows it is not modelled:
  a page-view request is identified by the underscored title.
\<close>

definition underscored :: "string \<Rightarrow> string" where
  "underscored t = map (\<lambda>c. if c = CHR '' '' then CHR ''_'' else c) t"

text \<open>
  \<^verbatim>\<open>
  const fetchWikipediaViews12Months = async (topicName, startCompact, endCompact) => {
    if (!topicName || isTestEnv) { return 0; }
    try {
      const searchResponse = await axios.get(WIKIPEDIA_SEARCH_URL, { params: ... });
      const title = searchResponse.data?.query?.search?.[0]?.title;
      if (!title) { return 0; }
      const encodedTitle = encodeURIComponent(title.replace(/ /g, '_'));
      const pageviewsUrl = `${WIKIMEDIA_PAGEVIEWS_BASE_URL}/${encodedTitle}/daily/...`;
      const pageviewsResponse = await axios.get(pageviewsUrl);
      const items = pageviewsResponse.data?.items || [];
      return items.reduce((sum, item) => sum + (item.views || 0), 0);
    } catch (error) {
      console.warn(`Wikipedia pageviews not available for "${topicName}": ...`);
      return 0;
    }
  };
  \<close>
  Both rejections end in the \<open>catch\<close>, so the function has no failing result.
\<close>

definition fetchWikipediaViews12Months ::
  "env \<Rightarrow> string \<Rightarrow> string \<Rightarrow> string \<Rightarrow> world \<Rightarrow> real \<times> world" where
  "fetchWikipediaViews12Months env topicName startC endC w =
     (if topicName = [] \<or> isTestEnv env then (0, w)
      else (case getSearch env (calls w) topicName of
              Inl e \<Rightarrow>
                (0, console_write (WarnWikipediaPageviews topicName e)
                      (axios_get (WikipediaSearch topicName) w))
            | Inr title \<Rightarrow>
                (let w1 = axios_get (WikipediaSearch topicName) w
                 in case title of
                      None \<Rightarrow> (0, w1)
                    | Some t \<Rightarrow>
                        if t = [] then (0, w1)
                        else (let encodedTitle = underscored t;
                                  w2 = axios_get (WikimediaPageviews encodedTitle startC endC) w1
                              in case getPageviews env (calls w1) encodedTitle startC endC of
                                   Inl e \<Rightarrow>
                                     (0, console_write (WarnWikipediaPageviews topicName e) w2)
                                 | Inr response_items \<Rightarrow>
                                     (let items = (case response_items of
                                                     None \<Rightarrow> []
                                                   | Some xs \<Rightarrow> xs)
                                      in (foldl (\<lambda>sum item. sum + orZero item) 0 items, w2))))))"

section \<open>The per-topic computation\<close>

text \<open>The object returned by \<open>computeRawIndicatorsForTopic\<close>.\<close>

record raw_metrics =
  citedByCount :: real
  worksCount :: real
  worksLast12Months :: real
  wikiViews12Months :: real
  estimatedCitations12Months :: real

record raw_indicators =
  impactRaw :: real
  activityRaw :: real
  raw_metrics :: raw_metrics

text \<open>
  Lines 130 to 154 of the module: the three OpenAlex signals start at \<open>0\<close>; with an
  \<open>openalexID\<close> each of the two fetches runs in its own \<open>try\<close>, whose \<open>catch\<close>
  only writes to the console and leaves the signal at \<open>0\<close>; without one a warning
  is written. The result is \<open>(citedByCount, worksCount, worksLast12Months)\<close>.
\<close>

definition openAlexSignals ::
  "env \<Rightarrow> topic \<Rightarrow> date_range \<Rightarrow> world \<Rightarrow> (real \<times> real \<times> real) \<times> world" where
  "openAlexSignals env t dates w =
     (if openalexID t \<noteq> None \<and> openalexID t \<noteq> Some [] then
        (let (openAlexMetrics, w1) = fetchOpenAlexTopicMetrics env (openalexID t) w;
             (cited, works, w2) =
               (case openAlexMetrics of
                  Inr (c, k) \<Rightarrow> (c, k, w1)
                | Inl e \<Rightarrow> (0, 0, console_write (ErrorOpenAlexMetrics (name t) e) w1));
             (fetched, w3) =
               fetchOpenAlexWorksCountLast12Months env (openalexID t)
                 (startDate dates) (endDate dates) w2;
             (recent, w4) =
               (case fetched of
                  Inr n \<Rightarrow> (n, w3)
                | Inl e \<Rightarrow> (0, console_write (ErrorOpenAlexWorks12m (name t) e) w3))
         in ((cited, works, recent), w4))
      else ((0, 0, 0), console_write (WarnNoOpenalexID (name t)) w))"

text \<open>
  \<open>computeRawIndicatorsForTopic\<close> (lines 127 to 188). The Topic is only read, and of it
  only \<open>openalexID\<close> and \<open>name\<close>.
\<close>

definition computeRawIndicatorsForTopic :: "env \<Rightarrow> topic \<Rightarrow> world \<Rightarrow> raw_indicators \<times> world" where
  "computeRawIndicatorsForTopic env t w =
     (let dates = last12MonthsRange env;
          ((cited, works, recent), w1) = openAlexSignals env t dates w;
          (views, w2) =
            fetchWikipediaViews12Months env (name t) (startCompact dates) (endCompact dates) w1;
          estimated = estimateCitations12m (Some cited) (Some works) (Some recent);
          impactValue =
            impact_citations * log10p cited + impact_works * log10p works
              + impact_wikiViews * log10p views;
          activityValue =
            activity_works12m * log10p recent + activity_citations12m * log10p estimated
              + activity_wikiViews * log10p views
      in (\<lparr>impactRaw = impactValue, activityRaw = activityValue,
           raw_metrics = \<lparr>citedByCount = cited, worksCount = works,
             worksLast12Months = recent, wikiViews12Months = views,
             estimatedCitations12Months = estimated\<rparr>\<rparr>, w2))"

text \<open>
  \<^verbatim>\<open>
  async function computeImpactForTopic(topic) {
    try {
      const { impactRaw, activityRaw } = await computeRawIndicatorsForTopic(topic);
      topic.impact = impactRaw;
      topic.activity = activityRaw;
      await topic.save();
      console.log(`Updated topic ...`);
      return topic;
    } catch (error) {
      console.error(`Error computing impact for topic "${topic.name}":`, error.message);
      return null;
    }
  }
  \<close>
\<close>

definition computeImpactForTopic :: "env \<Rightarrow> topic \<Rightarrow> world \<Rightarrow> topic option \<times> world" where
  "computeImpactForTopic env t w =
     (let (raw, w1) = computeRawIndicatorsForTopic env t w;
          t' = t\<lparr>impact := impactRaw raw, activity := activityRaw raw\<rparr>
      in case save env t' w1 of
           (Inr u, w2) \<Rightarrow>
             (Some t', console_write (LogUpdatedTopic (name t') (impact t') (activity t')) w2)
         | (Inl e, w2) \<Rightarrow> (None, console_write (ErrorComputingTopic (name t) e) w2))"

section \<open>The batch\<close>

text \<open>
  The first loop of \<open>computeImpactForAllTopics\<close>: one entry
  \<open>(topic, impactRaw, activityRaw)\<close> per Topic, in load order.
\<close>

fun computeRawResults :: "env \<Rightarrow> topic list \<Rightarrow> world \<Rightarrow> (topic \<times> real \<times> real) list \<times> world" where
  "computeRawResults env [] w = ([], w)"
| "computeRawResults env (t # ts) w =
     (let (rawIndicators, w1) = computeRawIndicatorsForTopic env t w;
          (rest, w2) = computeRawResults env ts w1
      in ((t, impactRaw rawIndicators, activityRaw rawIndicators) # rest, w2))"

text \<open>The two assignments in the body of the second loop.\<close>

definition normalized :: "real list \<Rightarrow> real list \<Rightarrow> topic \<times> real \<times> real \<Rightarrow> topic" where
  "normalized impactValues activityValues entry =
     (case entry of (t, impactValue, activityValue) \<Rightarrow>
        (let impactPercentile = percentileRank impactValues impactValue;
             activityPercentile = percentileRank activityValues activityValue
         in t\<lparr>impact := toFixed2 impactPercentile, activity := toFixed2 activityPercentile\<rparr>))"

text \<open>
  The second loop: a rejected \<open>save\<close> leaves the loop at once, since nothing inside
  the loop catches it.
\<close>

fun saveNormalized ::
  "env \<Rightarrow> real list \<Rightarrow> real list \<Rightarrow> (topic \<times> real \<times> real) list \<Rightarrow> world
     \<Rightarrow> (string + unit) \<times> world" where
  "saveNormalized env impactValues activityValues [] w = (Inr (), w)"
| "saveNormalized env impactValues activityValues (entry # rest) w =
     (case save env (normalized impactValues activityValues entry) w of
        (Inl e, w1) \<Rightarrow> (Inl e, w1)
      | (Inr u, w1) \<Rightarrow> saveNormalized env impactValues activityValues rest w1)"

text \<open>
  The \<open>try\<close> block of \<open>computeImpactForAllTopics\<close> (lines 230 to 255); \<open>Inl\<close>
  is the exception that leaves it. \<open>sort\<close> is \<open>.sort((a, b) => a - b)\<close>.
\<close>

definition tryAllTopics :: "env \<Rightarrow> world \<Rightarrow> (string + unit) \<times> world" where
  "tryAllTopics env w =
     (case findError env of
        Some e \<Rightarrow> (Inl e, w)
      | None \<Rightarrow>
          (let topics = db w;
               w0 = console_write (LogFoundTopics (length topics)) w;
               (rawResults, w1) = computeRawResults env topics w0;
               impactValues = sort (map (\<lambda>entry. fst (snd entry)) rawResults);
               activityValues = sort (map (\<lambda>entry. snd (snd entry)) rawResults)
           in case saveNormalized env impactValues activityValues rawResults w1 of
                (Inl e, w2) \<Rightarrow> (Inl e, w2)
              | (Inr u, w2) \<Rightarrow> (Inr (), console_write LogCompleted w2)))"

text \<open>
  \<open>computeImpactForAllTopics\<close>: the \<open>catch\<close> (lines 256 to 258) writes the message
  to the console and the function returns normally. \<open>Inl\<close> in the result would be a
  rejected promise.
\<close>

definition computeImpactForAllTopics :: "env \<Rightarrow> world \<Rightarrow> (string + unit) \<times> world" where
  "computeImpactForAllTopics env w =
     (case tryAllTopics env w of
        (Inl e, w1) \<Rightarrow> (Inr (), console_write (ErrorComputingAll e) w1)
      | (Inr u, w1) \<Rightarrow> (Inr (), w1))"

section \<open>The second copy of the module: freshness, back-off and a run cache\<close>

text \<open>
  \<open>src/backend/generate_question.js\<close> carries, from its line 95 on, a second copy of
  \<open>topic_indicator_computor.js\<close>, the one the Topic schema and the tests in
  \<open>src/unnamed/part_001\<close> are written for: it reads and writes the \<open>metrics\<close>
  block, backs off after a failed fetch and shares a cache within a run. Line numbers
  below are those of that file. Its functions have the suffix \<open>_v2\<close> here; what
  is literally the same in both copies (\<open>log10p\<close>, \<open>estimateCitations12m\<close>,
  \<open>percentileRank\<close>, the weights) is shared.
\<close>

text \<open>
  \<^verbatim>\<open>
  const CACHE_TTL_MS = {
    openalexAllTime: 30 * 24 * 60 * 60 * 1000,
    openalexWorks12m: 7 * 24 * 60 * 60 * 1000,
    wikipediaViews: 7 * 24 * 60 * 60 * 1000,
  };
  const BACKOFF_MS = 24 * 60 * 60 * 1000;
  \<close>
\<close>

definition CACHE_TTL_MS_openalexAllTime :: nat where
  "CACHE_TTL_MS_openalexAllTime = 30 * 24 * 60 * 60 * 1000"

definition CACHE_TTL_MS_openalexWorks12m :: nat where
  "CACHE_TTL_MS_openalexWorks12m = 7 * 24 * 60 * 60 * 1000"

definition CACHE_TTL_MS_wikipediaViews :: nat where
  "CACHE_TTL_MS_wikipediaViews = 7 * 24 * 60 * 60 * 1000"

definition BACKOFF_MS :: nat where
  "BACKOFF_MS = 24 * 60 * 60 * 1000"

text \<open>
  \<open>createRunCache\<close> (lines 166 to 171): four \<open>Map\<close>s. A title stored in
  \<open>wikiTitle\<close> may be \<open>null\<close>.
\<close>

record run_cache =
  cache_openalex :: "string \<rightharpoonup> real \<times> real"
  cache_openalexWorks12m :: "string \<rightharpoonup> real"
  cache_wikiTitle :: "string \<rightharpoonup> string option"
  cache_wikiViews :: "string \<rightharpoonup> real"

definition createRunCache :: run_cache where
  "createRunCache =
     \<lparr>cache_openalex = Map.empty, cache_openalexWorks12m = Map.empty,
      cache_wikiTitle = Map.empty, cache_wikiViews = Map.empty\<rparr>"

text \<open>
  \<^verbatim>\<open>
  const isFresh = (lastFetchedAt, ttlMs, now) => {
    if (!lastFetchedAt) { return false; }
    return now - new Date(lastFetchedAt) < ttlMs;
  };
  const setBackoff = (metrics, error, now) => {
    metrics.lastError = error;
    metrics.backoffUntil = new Date(now.getTime() + BACKOFF_MS);
  };
  \<close>
\<close>

definition isFresh :: "nat option \<Rightarrow> nat \<Rightarrow> nat \<Rightarrow> bool" where
  "isFresh lastFetchedAt ttlMs now =
     (case lastFetchedAt of
        None \<Rightarrow> False
      | Some fetchedAt \<Rightarrow> int now - int fetchedAt < int ttlMs)"

definition setBackoff :: "topic_metrics \<Rightarrow> string \<Rightarrow> nat \<Rightarrow> topic_metrics" where
  "setBackoff m error now = m\<lparr>lastError := Some error, backoffUntil := Some (now + BACKOFF_MS)\<rparr>"

text \<open>Truthiness of a string that may be \<open>null\<close>: present and not empty.\<close>

fun present :: "string option \<Rightarrow> bool" where
  "present None = False"
| "present (Some s) = (s \<noteq> [])"

text \<open>
  The four fetchers of the copy (lines 198 to 240). They have no guard of their own
  and no \<open>try\<close>: each is one request, \<open>Inl\<close> when it rejects.
\<close>

definition fetchOpenAlexTopicMetrics_v2 ::
  "env \<Rightarrow> string \<Rightarrow> world \<Rightarrow> (string + real \<times> real) \<times> world" where
  "fetchOpenAlexTopicMetrics_v2 env ident w =
     (case getTopics env (calls w) ident of
        Inl e \<Rightarrow> (Inl e, axios_get (OpenAlexTopic ident) w)
      | Inr response_data \<Rightarrow>
          (let data = (case response_data of
                         None \<Rightarrow> \<lparr>cited_by_count = None, works_count = None\<rparr>
                       | Some d \<Rightarrow> d)
           in (Inr (orZero (cited_by_count data), orZero (works_count data)),
               axios_get (OpenAlexTopic ident) w)))"

definition fetchOpenAlexWorksCountLast12Months_v2 ::
  "env \<Rightarrow> string \<Rightarrow> string \<Rightarrow> string \<Rightarrow> world \<Rightarrow> (string + real) \<times> world" where
  "fetchOpenAlexWorksCountLast12Months_v2 env ident fromDate toDate w =
     (case getWorks env (calls w) ident fromDate toDate of
        Inl e \<Rightarrow> (Inl e, axios_get (OpenAlexWorks ident fromDate toDate) w)
      | Inr count \<Rightarrow> (Inr (orZero count), axios_get (OpenAlexWorks ident fromDate toDate) w))"

text \<open>\<open>fetchWikipediaTitle\<close> returns \<open>...?.title || null\<close>.\<close>

definition fetchWikipediaTitle :: "env \<Rightarrow> string \<Rightarrow> world \<Rightarrow> (string + string option) \<times> world" where
  "fetchWikipediaTitle env topicName w =
     (case getSearch env (calls w) topicName of
        Inl e \<Rightarrow> (Inl e, axios_get (WikipediaSearch topicName) w)
      | Inr title \<Rightarrow>
          (Inr (if present title then title else None), axios_get (WikipediaSearch topicName) w))"

definition fetchWikipediaViews12Months_v2 ::
  "env \<Rightarrow> string \<Rightarrow> string \<Rightarrow> string \<Rightarrow> world \<Rightarrow> (string + real) \<times> world" where
  "fetchWikipediaViews12Months_v2 env title startC endC w =
     (let encodedTitle = underscored title
      in case getPageviews env (calls w) encodedTitle startC endC of
           Inl e \<Rightarrow> (Inl e, axios_get (WikimediaPageviews encodedTitle startC endC) w)
         | Inr response_items \<Rightarrow>
             (let items = (case response_items of None \<Rightarrow> [] | Some xs \<Rightarrow> xs)
              in (Inr (foldl (\<lambda>sum item. sum + orZero item) 0 items),
                  axios_get (WikimediaPageviews encodedTitle startC endC) w)))"

text \<open>
  What one call of the copy's \<open>computeRawIndicatorsForTopic\<close> mutates: the Topic's
  \<open>metrics\<close> block, the run cache and the world.
\<close>

type_synonym run = "topic_metrics \<times> run_cache \<times> world"

text \<open>
  Lines 256 to 278: the cumulative totals. The run cache is asked first, then the
  freshness of the stored values; only then is the provider called. A success stores
  the values, the time and the cache entry and clears \<open>lastError\<close>; a failure writes
  to the console and sets the back-off, leaving the signals \<open>(cited, works)\<close> as
  they were.
\<close>

definition openAlexTotals_v2 ::
  "env \<Rightarrow> topic \<Rightarrow> string \<Rightarrow> real \<times> real \<Rightarrow> run \<Rightarrow> (real \<times> real) \<times> run" where
  "openAlexTotals_v2 env t ident signals st =
     (case st of (m, c, w) \<Rightarrow>
        (let now = currentTime env
         in case cache_openalex c ident of
              Some openalexCached \<Rightarrow> (openalexCached, (m, c, w))
            | None \<Rightarrow>
                if isFresh (openalex_lastFetchedAt m) CACHE_TTL_MS_openalexAllTime now
                then ((openalex_citedByCount m, openalex_worksCount m), (m, c, w))
                else (case fetchOpenAlexTopicMetrics_v2 env ident w of
                        (Inr openAlexMetrics, w1) \<Rightarrow>
                          (openAlexMetrics,
                           (m\<lparr>openalex_citedByCount := fst openAlexMetrics,
                              openalex_worksCount := snd openAlexMetrics,
                              openalex_lastFetchedAt := Some now, lastError := None\<rparr>,
                            c\<lparr>cache_openalex := (cache_openalex c)(ident \<mapsto> openAlexMetrics)\<rparr>,
                            w1))
                      | (Inl e, w1) \<Rightarrow>
                          (signals,
                           (setBackoff m (''openalex: '' @ e) now, c,
                            console_write (ErrorOpenAlexMetrics (name t) e) w1)))))"

text \<open>Lines 280 to 301: the works of the last twelve months, in the same way.\<close>

definition openAlexWorks12m_v2 ::
  "env \<Rightarrow> topic \<Rightarrow> string \<Rightarrow> date_range \<Rightarrow> real \<Rightarrow> run \<Rightarrow> real \<times> run" where
  "openAlexWorks12m_v2 env t ident dates recent st =
     (case st of (m, c, w) \<Rightarrow>
        (let now = currentTime env;
             worksCacheKey = ident @ '':'' @ startDate dates @ '':'' @ endDate dates
         in case cache_openalexWorks12m c worksCacheKey of
              Some worksCached \<Rightarrow> (worksCached, (m, c, w))
            | None \<Rightarrow>
                if isFresh (openalex_lastWorksFetchedAt m) CACHE_TTL_MS_openalexWorks12m now
                then (openalex_worksLast12Months m, (m, c, w))
                else (case fetchOpenAlexWorksCountLast12Months_v2 env ident
                             (startDate dates) (endDate dates) w of
                        (Inr fetched, w1) \<Rightarrow>
                          (fetched,
                           (m\<lparr>openalex_worksLast12Months := fetched,
                              openalex_lastWorksFetchedAt := Some now, lastError := None\<rparr>,
                            c\<lparr>cache_openalexWorks12m :=
                                (cache_openalexWorks12m c)(worksCacheKey \<mapsto> fetched)\<rparr>,
                            w1))
                      | (Inl e, w1) \<Rightarrow>
                          (recent,
                           (setBackoff m (''openalex-works: '' @ e) now, c,
                            console_write (ErrorOpenAlexWorks12m (name t) e) w1)))))"

text \<open>
  Lines 307 to 323: the title. A stored title is kept; else a truthy title of the run
  cache; else, unless the page views are fresh, the search, whose answer (also
  \<open>null\<close>) is stored in the Topic and in the cache.
\<close>

definition wikipediaTitle_v2 :: "env \<Rightarrow> topic \<Rightarrow> run \<Rightarrow> string option \<times> run" where
  "wikipediaTitle_v2 env t st =
     (case st of (m, c, w) \<Rightarrow>
        (let now = currentTime env;
             wikiTitle = wikipedia_title m
         in if present wikiTitle then (wikiTitle, (m, c, w))
            else (let cachedTitle = (case cache_wikiTitle c (name t) of
                                       None \<Rightarrow> None
                                     | Some stored \<Rightarrow> stored)
                  in if present cachedTitle then (cachedTitle, (m, c, w))
                     else if \<not> isFresh (wikipedia_lastFetchedAt m) CACHE_TTL_MS_wikipediaViews now
                     then (case fetchWikipediaTitle env (name t) w of
                             (Inr fetched, w1) \<Rightarrow>
                               (fetched,
                                (m\<lparr>wikipedia_title := fetched, lastError := None\<rparr>,
                                 c\<lparr>cache_wikiTitle := (cache_wikiTitle c)(name t \<mapsto> fetched)\<rparr>,
                                 w1))
                           | (Inl e, w1) \<Rightarrow>
                               (wikiTitle,
                                (setBackoff m (''wikipedia-search: '' @ e) now, c,
                                 console_write (WarnWikipediaLookup (name t) e) w1)))
                     else (wikiTitle, (m, c, w)))))"

text \<open>
  Lines 325 to 354: the page views of the title, or, without a title, the stored views
  when fresh and the mark that a lookup was attempted.
\<close>

definition wikipediaViews_v2 ::
  "env \<Rightarrow> date_range \<Rightarrow> string option \<Rightarrow> real \<Rightarrow> run \<Rightarrow> real \<times> run" where
  "wikipediaViews_v2 env dates wikiTitle views0 st =
     (case st of (m, c, w) \<Rightarrow>
        (let now = currentTime env;
             fresh = isFresh (wikipedia_lastFetchedAt m) CACHE_TTL_MS_wikipediaViews now;
             views1 = (if \<not> present wikiTitle \<and> fresh then wikipedia_views12Months m
                       else views0)
         in case wikiTitle of
              Some title \<Rightarrow>
                if title \<noteq> [] then
                  (case cache_wikiViews c title of
                     Some cachedViews \<Rightarrow> (cachedViews, (m, c, w))
                   | None \<Rightarrow>
                       if fresh then (wikipedia_views12Months m, (m, c, w))
                       else (case fetchWikipediaViews12Months_v2 env title
                                    (startCompact dates) (endCompact dates) w of
                               (Inr fetched, w1) \<Rightarrow>
                                 (fetched,
                                  (m\<lparr>wikipedia_views12Months := fetched,
                                     wikipedia_lastFetchedAt := Some now, lastError := None\<rparr>,
                                   c\<lparr>cache_wikiViews := (cache_wikiViews c)(title \<mapsto> fetched)\<rparr>,
                                   w1))
                             | (Inl e, w1) \<Rightarrow>
                                 (views1,
                                  (setBackoff m (''wikipedia-views: '' @ e) now, c,
                                   console_write (WarnWikipediaPageviews title e) w1))))
                else if wikipedia_lastFetchedAt m = None
                then (views1,
                      (m\<lparr>wikipedia_lastFetchedAt := Some now, wikipedia_views12Months := 0\<rparr>,
                       c, w))
                else (views1, (m, c, w))
            | None \<Rightarrow>
                if wikipedia_lastFetchedAt m = None
                then (views1,
                      (m\<lparr>wikipedia_lastFetchedAt := Some now, wikipedia_views12Months := 0\<rparr>,
                       c, w))
                else (views1, (m, c, w))))"

text \<open>
  The copy's \<open>computeRawIndicatorsForTopic(topic, runCache)\<close> (lines 242 to 385). The
  signals start from the values stored in the Topic; \<open>backoffActive\<close> is decided
  once, before any fetch. The result is the returned object (with its
  \<open>backoffActive\<close> flag beside it), the Topic as mutated, and the run cache.
\<close>

definition computeRawIndicatorsForTopic_v2 ::
  "env \<Rightarrow> topic \<Rightarrow> run_cache \<Rightarrow> world
     \<Rightarrow> ((raw_indicators \<times> bool) \<times> topic \<times> run_cache) \<times> world" where
  "computeRawIndicatorsForTopic_v2 env t runCache w =
     (let dates = last12MonthsRange env;
          now = currentTime env;
          m = metrics t;
          backoffActive = (case backoffUntil m of None \<Rightarrow> False | Some until \<Rightarrow> now < until);
          hasKey = (openalexID t \<noteq> None \<and> openalexID t \<noteq> Some []);
          ((cited, works, recent), st1) =
            (if \<not> isTestEnv env \<and> \<not> backoffActive \<and> hasKey then
               (let ident = the (openalexID t);
                    (totals, st0) =
                      openAlexTotals_v2 env t ident
                        (openalex_citedByCount m, openalex_worksCount m) (m, runCache, w);
                    (fetched, st) =
                      openAlexWorks12m_v2 env t ident dates (openalex_worksLast12Months m) st0
                in ((fst totals, snd totals, fetched), st))
             else if \<not> hasKey then
               ((openalex_citedByCount m, openalex_worksCount m, openalex_worksLast12Months m),
                (m, runCache, console_write (WarnNoOpenalexID (name t)) w))
             else
               ((openalex_citedByCount m, openalex_worksCount m, openalex_worksLast12Months m),
                (m, runCache, w)));
          (views, st2) =
            (if \<not> isTestEnv env \<and> \<not> backoffActive then
               (let (wikiTitle, st) = wikipediaTitle_v2 env t st1
                in wikipediaViews_v2 env dates wikiTitle (wikipedia_views12Months m) st)
             else (wikipedia_views12Months m, st1));
          estimated = estimateCitations12m (Some cited) (Some works) (Some recent);
          impactValue =
            impact_citations * log10p cited + impact_works * log10p works
              + impact_wikiViews * log10p views;
          activityValue =
            activity_works12m * log10p recent + activity_citations12m * log10p estimated
              + activity_wikiViews * log10p views
      in case st2 of (m', runCache', w') \<Rightarrow>
           (((\<lparr>impactRaw = impactValue, activityRaw = activityValue,
               raw_metrics = \<lparr>citedByCount = cited, worksCount = works,
                 worksLast12Months = recent, wikiViews12Months = views,
                 estimatedCitations12Months = estimated\<rparr>\<rparr>, backoffActive),
             t\<lparr>metrics := m'\<rparr>, runCache'), w'))"

text \<open>
  The copy's \<open>computeImpactForTopic\<close> (lines 404 to 421): a fresh run cache, the raw
  composites written to \<open>impact\<close> and \<open>activity\<close>, \<open>lastComputedAt\<close> set, and the
  save.
\<close>

definition computeImpactForTopic_v2 :: "env \<Rightarrow> topic \<Rightarrow> world \<Rightarrow> topic option \<times> world" where
  "computeImpactForTopic_v2 env t w =
     (case computeRawIndicatorsForTopic_v2 env t createRunCache w of
        ((result, t1, runCache), w1) \<Rightarrow>
          (let raw = fst result;
               t' = t1\<lparr>impact := impactRaw raw, activity := activityRaw raw,
                      metrics := (metrics t1)\<lparr>lastComputedAt := Some (currentTime env)\<rparr>\<rparr>
           in case save env t' w1 of
                (Inr u, w2) \<Rightarrow>
                  (Some t',
                   console_write (LogUpdatedTopic (name t') (impact t') (activity t')) w2)
              | (Inl e, w2) \<Rightarrow> (None, console_write (ErrorComputingTopic (name t) e) w2)))"

text \<open>
  The copy's \<open>computeImpactForAllTopics\<close> (lines 428 to 463): as the first, with one
  run cache for the whole first loop and \<open>lastComputedAt\<close> set before each save.
\<close>

fun computeRawResults_v2 ::
  "env \<Rightarrow> topic list \<Rightarrow> run_cache \<Rightarrow> world \<Rightarrow> (topic \<times> real \<times> real) list \<times> world" where
  "computeRawResults_v2 env [] runCache w = ([], w)"
| "computeRawResults_v2 env (t # ts) runCache w =
     (case computeRawIndicatorsForTopic_v2 env t runCache w of
        ((result, t1, runCache1), w1) \<Rightarrow>
          (let (rest, w2) = computeRawResults_v2 env ts runCache1 w1
           in ((t1, impactRaw (fst result), activityRaw (fst result)) # rest, w2)))"

definition normalized_v2 :: "env \<Rightarrow> real list \<Rightarrow> real list \<Rightarrow> topic \<times> real \<times> real \<Rightarrow> topic" where
  "normalized_v2 env impactValues activityValues entry =
     (let t = normalized impactValues activityValues entry
      in t\<lparr>metrics := (metrics t)\<lparr>lastComputedAt := Some (currentTime env)\<rparr>\<rparr>)"

fun saveNormalized_v2 ::
  "env \<Rightarrow> real list \<Rightarrow> real list \<Rightarrow> (topic \<times> real \<times> real) list \<Rightarrow> world
     \<Rightarrow> (string + unit) \<times> world" where
  "saveNormalized_v2 env impactValues activityValues [] w = (Inr (), w)"
| "saveNormalized_v2 env impactValues activityValues (entry # rest) w =
     (case save env (normalized_v2 env impactValues activityValues entry) w of
        (Inl e, w1) \<Rightarrow> (Inl e, w1)
      | (Inr u, w1) \<Rightarrow> saveNormalized_v2 env impactValues activityValues rest w1)"

definition computeImpactForAllTopics_v2 :: "env \<Rightarrow> world \<Rightarrow> (string + unit) \<times> world" where
  "computeImpactForAllTopics_v2 env w =
     (case (case findError env of
              Some e \<Rightarrow> (Inl e, w)
            | None \<Rightarrow>
                (let topics = db w;
                     w0 = console_write (LogFoundTopics (length topics)) w;
                     (rawResults, w1) = computeRawResults_v2 env topics createRunCache w0;
                     impactValues = sort (map (\<lambda>entry. fst (snd entry)) rawResults);
                     activityValues = sort (map (\<lambda>entry. snd (snd entry)) rawResults)
                 in case saveNormalized_v2 env impactValues activityValues rawResults w1 of
                      (Inl e, w2) \<Rightarrow> (Inl e, w2)
                    | (Inr u, w2) \<Rightarrow> (Inr (), console_write LogCompleted w2))) of
        (Inl e, w1) \<Rightarrow> (Inr (), console_write (ErrorComputingAll e) w1)
      | (Inr u, w1) \<Rightarrow> (Inr (), w1))"

section \<open>Concrete Topics and environments\<close>

text \<open>The defaults of the schema for the \<open>metrics\<close> block.\<close>

definition defaultMetrics :: topic_metrics where
  "defaultMetrics =
     \<lparr>openalex_citedByCount = 0, openalex_worksCount = 0, openalex_worksLast12Months = 0,
      openalex_lastFetchedAt = None, openalex_lastWorksFetchedAt = None,
      wikipedia_title = None, wikipedia_views12Months = 0, wikipedia_lastFetchedAt = None,
      lastComputedAt = None, lastError = None, backoffUntil = None\<rparr>"

text \<open>
  The Topic of the repository's test \<open>computeImpactForTopic uses cached metrics when
  fresh and skips external calls\<close> (\<open>src/unnamed/part_001\<close>, lines 148 to 188): every
  source was fetched at the moment \<open>now\<close> of the call, here \<open>1793577600000\<close>
  (2 November 2026, 00:00 UTC).
\<close>

definition cachedTopic :: topic where
  "cachedTopic =
     \<lparr>tid = 1, name = ''Cached Topic'', departmentName = ''Physics'',
      openalexID = Some ''T-CACHED'', activity = 0, impact = 0,
      metrics = defaultMetrics
        \<lparr>openalex_citedByCount := 500, openalex_worksCount := 50,
         openalex_worksLast12Months := 5,
         openalex_lastFetchedAt := Some 1793577600000,
         openalex_lastWorksFetchedAt := Some 1793577600000,
         wikipedia_title := Some ''Cached Topic'', wikipedia_views12Months := 2500,
         wikipedia_lastFetchedAt := Some 1793577600000\<rparr>\<rparr>"

text \<open>
  The same Topic with every source fetched a year before (\<open>1762041600000\<close>), so
  that every cached value is older than its time-to-live.
\<close>

definition staleTopic :: topic where
  "staleTopic =
     cachedTopic\<lparr>metrics := (metrics cachedTopic)
       \<lparr>openalex_lastFetchedAt := Some 1762041600000,
        openalex_lastWorksFetchedAt := Some 1762041600000,
        wikipedia_lastFetchedAt := Some 1762041600000\<rparr>\<rparr>"

definition exampleRange :: date_range where
  "exampleRange =
     \<lparr>startDate = ''2025-11-02'', endDate = ''2026-11-02'',
      startCompact = ''20251102'', endCompact = ''20261102''\<rparr>"

text \<open>Every provider rejects, as the mock of that test does; the store works.\<close>

definition providersDown :: env where
  "providersDown =
     \<lparr>isTestEnv = False, last12MonthsRange = exampleRange,
      currentTime = 1793577600000,
      getTopics = (\<lambda>history ident. Inl ''unavailable''),
      getWorks = (\<lambda>history ident fromDate toDate. Inl ''unavailable''),
      getSearch = (\<lambda>history topicName. Inl ''unavailable''),
      getPageviews = (\<lambda>history t startC endC. Inl ''unavailable''),
      findError = None, saveError = (\<lambda>t. None)\<rparr>"

text \<open>
  Every provider answers: ten citations over five works, one recent work, a search
  that resolves any name to the title \<open>Physics\<close> and a hundred page views.
\<close>

definition providersUp :: env where
  "providersUp =
     \<lparr>isTestEnv = False, last12MonthsRange = exampleRange,
      currentTime = 1793577600000,
      getTopics = (\<lambda>history ident.
        Inr (Some \<lparr>cited_by_count = Some 10, works_count = Some 5\<rparr>)),
      getWorks = (\<lambda>history ident fromDate toDate. Inr (Some 1)),
      getSearch = (\<lambda>history topicName. Inr (Some ''Physics'')),
      getPageviews = (\<lambda>history t startC endC. Inr (Some [Some 100])),
      findError = None, saveError = (\<lambda>t. None)\<rparr>"

text \<open>Two Topics with the same \<open>openalexID\<close> and prior scores \<open>7\<close>.\<close>

definition topicA :: topic where
  "topicA =
     \<lparr>tid = 1, name = ''Topic A'', departmentName = ''Physics'',
      openalexID = Some ''T-A'', activity = 7, impact = 7, metrics = defaultMetrics\<rparr>"

definition topicB :: topic where
  "topicB =
     \<lparr>tid = 2, name = ''Topic B'', departmentName = ''Physics'',
      openalexID = Some ''T-A'', activity = 7, impact = 7, metrics = defaultMetrics\<rparr>"

definition emptyWorld :: world where
  "emptyWorld = \<lparr>db = [], calls = [], console = []\<rparr>"

definition twoTopics :: world where
  "twoTopics = \<lparr>db = [topicA, topicB], calls = [], console = []\<rparr>"

definition staleWorld :: world where
  "staleWorld = \<lparr>db = [staleTopic], calls = [], console = []\<rparr>"

text \<open>The store rejects the save of the document with \<open>_id\<close> \<open>1\<close> only.\<close>

definition firstSaveFails :: env where
  "firstSaveFails =
     providersDown\<lparr>saveError := (\<lambda>t. if tid t = 1 then Some ''write failed'' else None)\<rparr>"

text \<open>The store rejects the save of the document with \<open>_id\<close> \<open>2\<close> only.\<close>

definition secondSaveFails :: env where
  "secondSaveFails =
     providersDown\<lparr>saveError := (\<lambda>t. if tid t = 2 then Some ''write failed'' else None)\<rparr>"

text \<open>The store rejects \<open>Topic.find()\<close>.\<close>

definition storeDown :: env where
  "storeDown = providersUp\<lparr>findError := Some ''store unavailable''\<rparr>"

section \<open>Facts about the index searches\<close>

lemma findIndexFrom_none:
  "\<forall>x \<in> set xs. \<not> p x \<Longrightarrow> findIndexFrom p xs k = - 1"
  by (induction xs arbitrary: k) auto

lemma findIndexFrom_takeWhile:
  "\<exists>x \<in> set xs. p x \<Longrightarrow>
     findIndexFrom p xs k = k + int (length (takeWhile (\<lambda>x. \<not> p x) xs))"
proof (induction xs arbitrary: k)
  case Nil
  then show ?case by simp
next
  case (Cons a xs)
  show ?case
  proof (cases "p a")
    case True
    then show ?thesis by simp
  next
    case False
    with Cons.prems have "\<exists>x \<in> set xs. p x" by auto
    from Cons.IH [OF this, of "k + 1"] False show ?thesis by simp
  qed
qed

lemma findIndex_absent: "v \<notin> set xs \<Longrightarrow> findIndex (\<lambda>item. item = v) xs = - 1"
  unfolding findIndex_def by (rule findIndexFrom_none) auto

lemma findLastIndex_absent: "v \<notin> set xs \<Longrightarrow> findLastIndex (\<lambda>item. item = v) xs = - 1"
  unfolding findLastIndex_def by (simp add: findIndex_absent)

lemma findIndex_present:
  "v \<in> set xs \<Longrightarrow>
     findIndex (\<lambda>item. item = v) xs = int (length (takeWhile (\<lambda>x. x \<noteq> v) xs))"
  unfolding findIndex_def using findIndexFrom_takeWhile [of xs "\<lambda>item. item = v" 0] by auto

lemma findLastIndex_present:
  "v \<in> set xs \<Longrightarrow>
     findLastIndex (\<lambda>item. item = v) xs =
       int (length xs) - 1 - int (length (takeWhile (\<lambda>x. x \<noteq> v) (rev xs)))"
  unfolding findLastIndex_def by (simp add: findIndex_present Let_def)

lemma percentileRank_many:
  assumes "1 < length xs"
  shows "percentileRank xs v =
    (real_of_int (findIndex (\<lambda>item. item = v) xs + findLastIndex (\<lambda>item. item = v) xs) / 2
       / (real (length xs) - 1)) * 100"
proof -
  from assms have a: "(length xs = 0) = False" and b: "(length xs = 1) = False" by auto
  show ?thesis by (simp only: percentileRank_def Let_def a b if_False)
qed

lemma takeWhile_neq_less:
  assumes "v \<in> set xs"
  shows "length (takeWhile (\<lambda>x. x \<noteq> v) xs) < length xs"
  using assms by (induction xs) auto

text \<open>The two searches find the least and the greatest index at which the value occurs.\<close>

lemma takeWhile_neq_occurs:
  assumes "v \<in> set xs"
  shows "length (takeWhile (\<lambda>x. x \<noteq> v) xs) \<in> set (occurrences xs v)"
proof -
  let ?k = "length (takeWhile (\<lambda>x. x \<noteq> v) xs)"
  have k: "?k < length xs" using assms by (rule takeWhile_neq_less)
  from nth_length_takeWhile [OF k] have "xs ! ?k = v" by simp
  with k show ?thesis by (simp add: occurrences_def)
qed

lemma first_occurrence:
  assumes "v \<in> set xs"
  shows "Min (set (occurrences xs v)) = length (takeWhile (\<lambda>x. x \<noteq> v) xs)"
proof (rule Min_eqI)
  let ?k = "length (takeWhile (\<lambda>x. x \<noteq> v) xs)"
  show "finite (set (occurrences xs v))" by simp
  show "?k \<in> set (occurrences xs v)" using assms by (rule takeWhile_neq_occurs)
  fix i assume "i \<in> set (occurrences xs v)"
  then have i: "i < length xs" "xs ! i = v" by (simp_all add: occurrences_def)
  show "?k \<le> i"
  proof (rule ccontr)
    assume "\<not> ?k \<le> i"
    then have lt: "i < ?k" by simp
    then have "takeWhile (\<lambda>x. x \<noteq> v) xs ! i \<in> set (takeWhile (\<lambda>x. x \<noteq> v) xs)"
      by (rule nth_mem)
    then have "takeWhile (\<lambda>x. x \<noteq> v) xs ! i \<noteq> v" by (auto dest: set_takeWhileD)
    with takeWhile_nth [OF lt] i(2) show False by simp
  qed
qed

lemma occurrences_rev:
  "i \<in> set (occurrences (rev xs) v) \<longleftrightarrow>
     i < length xs \<and> length xs - 1 - i \<in> set (occurrences xs v)"
proof (cases "i < length xs")
  case True
  then have "rev xs ! i = xs ! (length xs - 1 - i)" by (simp add: rev_nth)
  moreover from True have "length xs - 1 - i < length xs" by simp
  ultimately show ?thesis using True by (simp add: occurrences_def)
next
  case False
  then show ?thesis by (simp add: occurrences_def)
qed

lemma last_occurrence:
  assumes "v \<in> set xs"
  shows "Max (set (occurrences xs v)) =
    length xs - 1 - length (takeWhile (\<lambda>x. x \<noteq> v) (rev xs))"
proof (rule Max_eqI)
  let ?k = "length (takeWhile (\<lambda>x. x \<noteq> v) (rev xs))"
  from assms have vr: "v \<in> set (rev xs)" by simp
  have m: "Min (set (occurrences (rev xs) v)) = ?k" using vr by (rule first_occurrence)
  show "finite (set (occurrences xs v))" by simp
  have "?k \<in> set (occurrences (rev xs) v)" using vr by (rule takeWhile_neq_occurs)
  then show "length xs - 1 - ?k \<in> set (occurrences xs v)" by (simp add: occurrences_rev)
  fix i assume i: "i \<in> set (occurrences xs v)"
  then have il: "i < length xs" by (simp add: occurrences_def)
  then have "length xs - 1 - (length xs - 1 - i) = i" by simp
  with i il have "length xs - 1 - i \<in> set (occurrences (rev xs) v)"
    by (simp add: occurrences_rev)
  then have "?k \<le> length xs - 1 - i"
    using Min_le [of "set (occurrences (rev xs) v)"] m by simp
  with il show "i \<le> length xs - 1 - ?k" by simp
qed

text \<open>
  On a sorted list the first index of a value is the number of smaller elements, and
  the elements after its last index are the greater ones.
\<close>

lemma sorted_takeWhile_less:
  "sorted xs \<Longrightarrow> v \<in> set xs \<Longrightarrow>
     length (takeWhile (\<lambda>x. x \<noteq> v) xs) = length (filter (\<lambda>x. x < v) xs)"
  for v :: real
proof (induction xs)
  case Nil
  then show ?case by simp
next
  case (Cons a xs)
  show ?case
  proof (cases "a = v")
    case True
    with Cons.prems(1) have "filter (\<lambda>x. x < v) (a # xs) = []"
      by (auto simp: filter_empty_conv)
    with True show ?thesis by simp
  next
    case False
    with Cons.prems have "v \<in> set xs" and "a < v" and "sorted xs" by auto
    with Cons.IH False show ?thesis by simp
  qed
qed

lemma sorted_takeWhile_rev_greater:
  "sorted xs \<Longrightarrow> v \<in> set xs \<Longrightarrow>
     length (takeWhile (\<lambda>x. x \<noteq> v) (rev xs)) = length (filter (\<lambda>x. v < x) xs)"
  for v :: real
proof (induction xs rule: rev_induct)
  case Nil
  then show ?case by simp
next
  case (snoc a xs)
  show ?case
  proof (cases "a = v")
    case True
    with snoc.prems(1) have "filter (\<lambda>x. v < x) (xs @ [a]) = []"
      by (auto simp: filter_empty_conv sorted_append)
    with True show ?thesis by simp
  next
    case False
    with snoc.prems have "v \<in> set xs" and "v < a" and "sorted xs"
      by (auto simp: sorted_append)
    with snoc.IH False show ?thesis by simp
  qed
qed

lemma percentileRank_sort_counts:
  assumes "v \<in> set raw" and "1 < length raw"
  shows "percentileRank (sort raw) v =
     (real (length (filter (\<lambda>x. x < v) raw))
        + (real (length raw) - 1 - real (length (filter (\<lambda>x. v < x) raw))))
       / 2 / (real (length raw) - 1) * 100"
proof -
  have v: "v \<in> set (sort raw)" using assms(1) by simp
  have s: "sorted (sort raw)" by simp
  have lt: "length (filter (\<lambda>x. x < v) (sort raw)) = length (filter (\<lambda>x. x < v) raw)"
    by (simp add: filter_sort)
  have gt: "length (filter (\<lambda>x. v < x) (sort raw)) = length (filter (\<lambda>x. v < x) raw)"
    by (simp add: filter_sort)
  have f: "findIndex (\<lambda>item. item = v) (sort raw) = int (length (filter (\<lambda>x. x < v) raw))"
    using findIndex_present [OF v] sorted_takeWhile_less [OF s v] lt by simp
  have l: "findLastIndex (\<lambda>item. item = v) (sort raw) =
      int (length raw) - 1 - int (length (filter (\<lambda>x. v < x) raw))"
    using findLastIndex_present [OF v] sorted_takeWhile_rev_greater [OF s v] gt by simp
  have n: "1 < length (sort raw)" using assms(2) by simp
  show ?thesis
    by (simp only: percentileRank_many [OF n] f l length_sort) simp
qed

lemma percentileRank_refines_spec:
  assumes "v \<in> set raw"
  shows "percentileRank (sort raw) v = percentileRank_spec raw v"
proof (cases "1 < length raw")
  case True
  have v: "v \<in> set (sort raw)" using assms by simp
  have n: "1 < length (sort raw)" using True by simp
  have k: "length (takeWhile (\<lambda>x. x \<noteq> v) (rev (sort raw))) < length raw"
    using takeWhile_neq_less [of v "rev (sort raw)"] assms by simp
  have "real_of_int (findIndex (\<lambda>item. item = v) (sort raw)
          + findLastIndex (\<lambda>item. item = v) (sort raw))
        = real (Min (set (occurrences (sort raw) v)))
          + real (Max (set (occurrences (sort raw) v)))"
    using k by (simp add: findIndex_present [OF v] findLastIndex_present [OF v]
        first_occurrence [OF v] last_occurrence [OF v] of_nat_diff)
  moreover from True have "raw \<noteq> []" and "length raw \<noteq> 1" by auto
  ultimately show ?thesis
    by (simp add: percentileRank_many [OF n] percentileRank_spec_def Let_def)
next
  case False
  with assms have "length raw = 1" by (cases raw) auto
  then show ?thesis by (auto simp: percentileRank_def percentileRank_spec_def Let_def)
qed

lemma three_way_count:
  "length xs =
     length (filter (\<lambda>x. x < v) xs) + count_list xs v + length (filter (\<lambda>x. v < x) xs)"
  for v :: real
  by (induction xs) auto

lemma percentileRank_unique_min:
  assumes "1 < length raw" and "v \<in> set raw" and "\<forall>x \<in> set raw. v \<le> x"
    and "count_list raw v = 1"
  shows "percentileRank (sort raw) v = 0"
proof -
  from assms(3) have a: "filter (\<lambda>x. x < v) raw = []" by (auto simp: filter_empty_conv)
  with three_way_count [of raw v] assms(4)
  have "real (length (filter (\<lambda>x. v < x) raw)) = real (length raw) - 1" by simp
  with a show ?thesis by (simp add: percentileRank_sort_counts [OF assms(2,1)])
qed

lemma percentileRank_unique_max:
  assumes "1 < length raw" and "v \<in> set raw" and "\<forall>x \<in> set raw. x \<le> v"
    and "count_list raw v = 1"
  shows "percentileRank (sort raw) v = 100"
proof -
  from assms(3) have a: "filter (\<lambda>x. v < x) raw = []" by (auto simp: filter_empty_conv)
  with three_way_count [of raw v] assms(4)
  have "real (length (filter (\<lambda>x. x < v) raw)) = real (length raw) - 1" by simp
  with a assms(1) show ?thesis by (simp add: percentileRank_sort_counts [OF assms(2,1)])
qed

section \<open>Claims about the pure helpers\<close>

text \<open>
  C6. \<open>estimateCitations12m\<close> is \<open>(citedByCount / worksCount) * works12m\<close> when the three
  factors are present and non-zero, and exactly \<open>0\<close> as soon as one of them is zero or
  missing.
\<close>

theorem estimateCitations12m_value:
  "(c \<noteq> 0 \<and> w \<noteq> 0 \<and> m \<noteq> 0 \<longrightarrow>
      estimateCitations12m (Some c) (Some w) (Some m) = (c / w) * m)
   \<and> (\<not> truthy cited \<or> \<not> truthy works \<or> \<not> truthy recent \<longrightarrow>
      estimateCitations12m cited works recent = 0)"
  by (auto simp: estimateCitations12m_def)

theorem estimateCitations12m_value_witness:
  "estimateCitations12m (Some 1000) (Some 100) (Some 20) = 200
   \<and> estimateCitations12m (Some 1000) None (Some 20) = 0"
  using estimateCitations12m_value [of 1000 100 20 "Some 1000" None "Some 20"] by simp

text \<open>
  C10. The range \<open>[0,100]\<close> holds only for values that occur in the list: on a list of
  length \<open>n > 1\<close> a value that does not occur makes both searches return \<open>-1\<close>, and the
  rank is the negative number \<open>-100 / (n - 1)\<close>. (Sortedness plays no part.)
\<close>

theorem percentileRank_absent_value:
  assumes "1 < length xs" and "v \<notin> set xs"
  shows "percentileRank xs v = - 100 / (real (length xs) - 1)"
proof -
  have first: "findIndex (\<lambda>item. item = v) xs = - 1"
    using assms(2) by (rule findIndex_absent)
  have last: "findLastIndex (\<lambda>item. item = v) xs = - 1"
    using assms(2) by (rule findLastIndex_absent)
  show ?thesis
    by (simp only: percentileRank_many [OF assms(1)] first last) simp
qed

theorem percentileRank_absent_value_witness:
  "1 < length [1, 2, 3 :: real] \<and> (5::real) \<notin> set [1, 2, 3]
   \<and> percentileRank [1, 2, 3] 5 = - 50"
  using percentileRank_absent_value [of "[1, 2, 3]" 5] by simp

text \<open>
  C4, as stated, fails where the minimum (or the maximum) of the batch is tied: in the
  batch \<open>5, 5, 10\<close> of size \<open>3\<close> the minimum \<open>5\<close> occupies the indices \<open>0\<close> and
  \<open>1\<close> and ranks \<open>25\<close>, not \<open>0\<close>.
\<close>

theorem percentileRank_tied_minimum_counterexample:
  "percentileRank (sort [5, 5, 10]) 5 = 25 \<and> percentileRank (sort [5, 5, 10]) 5 \<noteq> 0"
  by (simp add: percentileRank_def findIndex_def findLastIndex_def)

text \<open>
  C4, amended. For a value of the batch, \<open>percentileRank\<close> on the sorted batch is the rank
  in the words of the specification (average of the first and last index of the value,
  over \<open>count - 1\<close>, times \<open>100\<close>), so equal values get equal, averaged ranks: in
  \<open>10, 20, 20, 30\<close> the value \<open>20\<close> ranks \<open>50\<close>. In a batch of more than one the
  minimum ranks \<open>0\<close> and the maximum ranks \<open>100\<close> when they occur once; a batch of one
  ranks its member \<open>100\<close>; an empty batch yields \<open>0\<close>.
\<close>

theorem percentileRank_mid_rank:
  "(v \<in> set raw \<longrightarrow> percentileRank (sort raw) v = percentileRank_spec raw v)
   \<and> percentileRank (sort [10, 20, 20, 30]) 20 = 50
   \<and> (1 < length raw \<and> v \<in> set raw \<and> (\<forall>x \<in> set raw. v \<le> x) \<and> count_list raw v = 1
        \<longrightarrow> percentileRank (sort raw) v = 0)
   \<and> (1 < length raw \<and> v \<in> set raw \<and> (\<forall>x \<in> set raw. x \<le> v) \<and> count_list raw v = 1
        \<longrightarrow> percentileRank (sort raw) v = 100)
   \<and> percentileRank (sort [x]) x = 100
   \<and> percentileRank (sort []) v = 0"
proof -
  have "percentileRank (sort [10, 20, 20, 30]) 20 = 50"
    by (simp add: percentileRank_def findIndex_def findLastIndex_def)
  moreover have "percentileRank (sort [x]) x = 100"
    by (simp add: percentileRank_def)
  moreover have "percentileRank (sort []) v = 0"
    by (simp add: percentileRank_def)
  ultimately show ?thesis
    using percentileRank_refines_spec [of v raw] percentileRank_unique_min [of raw v]
      percentileRank_unique_max [of raw v]
    by blast
qed

theorem percentileRank_mid_rank_witness:
  "percentileRank (sort [30, 10, 20]) 10 = percentileRank_spec [30, 10, 20] 10
   \<and> percentileRank (sort [30, 10, 20]) 10 = 0
   \<and> percentileRank (sort [30, 10, 20]) 30 = 100"
proof -
  have a: "(10::real) \<in> set [30, 10, 20]" by simp
  have b: "1 < length [30, 10, 20 :: real] \<and> (10::real) \<in> set [30, 10, 20]
      \<and> (\<forall>x \<in> set [30, 10, 20]. (10::real) \<le> x) \<and> count_list [30, 10, 20] (10::real) = 1"
    by simp
  have c: "1 < length [30, 10, 20 :: real] \<and> (30::real) \<in> set [30, 10, 20]
      \<and> (\<forall>x \<in> set [30, 10, 20]. x \<le> (30::real)) \<and> count_list [30, 10, 20] (30::real) = 1"
    by simp
  from a b c show ?thesis
    using percentileRank_mid_rank [of 10 "[30, 10, 20]"]
      percentileRank_mid_rank [of 30 "[30, 10, 20]"]
    by blast
qed

section \<open>Frame facts: what each step leaves alone\<close>

lemma db_axios_get [simp]: "db (axios_get r w) = db w"
  by (simp add: axios_get_def)

lemma db_console_write [simp]: "db (console_write e w) = db w"
  by (simp add: console_write_def)

lemma calls_console_write [simp]: "calls (console_write e w) = calls w"
  by (simp add: console_write_def)

lemma fetchOpenAlexTopicMetrics_db:
  "fetchOpenAlexTopicMetrics env key w = (r, w') \<Longrightarrow> db w' = db w"
  by (auto simp: fetchOpenAlexTopicMetrics_def Let_def split: option.splits sum.splits if_splits)

lemma fetchOpenAlexWorksCountLast12Months_db:
  "fetchOpenAlexWorksCountLast12Months env key a b w = (r, w') \<Longrightarrow> db w' = db w"
  by (auto simp: fetchOpenAlexWorksCountLast12Months_def split: option.splits sum.splits if_splits)

lemma fetchWikipediaViews12Months_db:
  "fetchWikipediaViews12Months env n a b w = (r, w') \<Longrightarrow> db w' = db w"
  by (auto simp: fetchWikipediaViews12Months_def Let_def split: option.splits sum.splits if_splits)

lemma openAlexSignals_db: "openAlexSignals env t dates w = (r, w') \<Longrightarrow> db w' = db w"
  by (auto simp: openAlexSignals_def Let_def split: prod.splits sum.splits if_splits
      dest!: fetchOpenAlexTopicMetrics_db fetchOpenAlexWorksCountLast12Months_db)

lemma computeRawIndicatorsForTopic_db:
  "computeRawIndicatorsForTopic env t w = (r, w') \<Longrightarrow> db w' = db w"
  by (auto simp: computeRawIndicatorsForTopic_def Let_def split: prod.splits
      dest!: openAlexSignals_db fetchWikipediaViews12Months_db)

lemma computeRawResults_frame:
  "computeRawResults env ts w = (rs, w') \<Longrightarrow> db w' = db w \<and> map fst rs = ts"
proof (induction ts arbitrary: w rs w')
  case Nil
  then show ?case by simp
next
  case (Cons t ts)
  obtain r w1 where a: "computeRawIndicatorsForTopic env t w = (r, w1)" by force
  obtain rs1 w2 where b: "computeRawResults env ts w1 = (rs1, w2)" by force
  from a have "db w1 = db w" by (rule computeRawIndicatorsForTopic_db)
  with Cons.IH [OF b] Cons.prems a b show ?case by auto
qed

lemma save_replaces:
  assumes "distinct (map tid (before @ t # after))" and "tid t' = tid t"
  shows "map (\<lambda>u. if tid u = tid t' then t' else u) (before @ t # after) = before @ t' # after"
proof -
  from assms(1) have b: "tid t \<notin> tid ` set before" and a: "tid t \<notin> tid ` set after"
    by auto
  from b have "\<forall>u \<in> set before. tid u \<noteq> tid t" by (metis image_eqI)
  moreover from a have "\<forall>u \<in> set after. tid u \<noteq> tid t" by (metis image_eqI)
  ultimately have "map (\<lambda>u. if tid u = tid t' then t' else u) before = before"
    and "map (\<lambda>u. if tid u = tid t' then t' else u) after = after"
    using assms(2) by (simp_all add: map_idI)
  with assms(2) show ?thesis by simp
qed

lemma tid_normalized [simp]: "tid (normalized iv av e) = tid (fst e)"
  by (cases e) (simp add: normalized_def Let_def)

lemma saveNormalized_db:
  assumes "db w = before @ map fst es" and "distinct (map tid (db w))"
  shows "db (snd (saveNormalized env iv av es w)) =
     before @ map (normalized iv av) (takeWhile (\<lambda>e. saveError env (normalized iv av e) = None) es)
       @ map fst (dropWhile (\<lambda>e. saveError env (normalized iv av e) = None) es)"
  using assms
proof (induction es arbitrary: w before)
  case Nil
  then show ?case by simp
next
  case (Cons e es)
  let ?t' = "normalized iv av e"
  show ?case
  proof (cases "saveError env ?t'")
    case (Some msg)
    then show ?thesis using Cons.prems(1) by (simp add: save_def)
  next
    case None
    let ?w1 = "w\<lparr>db := map (\<lambda>u. if tid u = tid ?t' then ?t' else u) (db w)\<rparr>"
    have d: "distinct (map tid (before @ fst e # map fst es))"
      using Cons.prems by simp
    have db1: "db ?w1 = (before @ [?t']) @ map fst es"
      using save_replaces [OF d, of ?t'] Cons.prems(1) by simp
    have "map tid (db ?w1) = map tid ((before @ [?t']) @ map fst es)"
      by (simp only: db1)
    also have "\<dots> = map tid (db w)"
      by (simp add: Cons.prems(1))
    finally have eq: "map tid (db ?w1) = map tid (db w)" .
    have d1: "distinct (map tid (db ?w1))" by (simp only: eq Cons.prems(2))
    from Cons.IH [OF db1 d1] None show ?thesis by (simp add: save_def)
  qed
qed

lemma saveNormalized_result:
  "fst (saveNormalized env iv av es w) = Inr () \<longleftrightarrow>
     (\<forall>e \<in> set es. saveError env (normalized iv av e) = None)"
  by (induction es arbitrary: w) (auto simp: save_def split: option.splits)

text \<open>The \<open>reduce\<close> over the page-view items is their sum.\<close>

lemma foldl_orZero_from:
  "foldl (\<lambda>sum item. sum + orZero item) acc items = acc + sum_list (map orZero items)"
  by (induction items arbitrary: acc) simp_all

text \<open>
  The second loop changes nothing but the store, and ends with the first rejected save.
\<close>

lemma save_only_db: "snd (save env t w) = w\<lparr>db := db (snd (save env t w))\<rparr>"
  by (simp add: save_def split: option.split)

lemma saveNormalized_only_db:
  "snd (saveNormalized env iv av es w) = w\<lparr>db := db (snd (saveNormalized env iv av es w))\<rparr>"
proof (induction es arbitrary: w)
  case Nil
  show ?case by simp
next
  case (Cons e es)
  show ?case
  proof (cases "saveError env (normalized iv av e)")
    case (Some msg)
    then show ?thesis by (simp add: save_def)
  next
    case None
    let ?w1 = "w\<lparr>db := map (\<lambda>u. if tid u = tid (normalized iv av e) then normalized iv av e else u) (db w)\<rparr>"
    from None have s: "saveNormalized env iv av (e # es) w = saveNormalized env iv av es ?w1"
      by (simp add: save_def)
    have "snd (saveNormalized env iv av es ?w1) =
        ?w1\<lparr>db := db (snd (saveNormalized env iv av es ?w1))\<rparr>"
      by (rule Cons.IH)
    then show ?thesis unfolding s by simp
  qed
qed

lemma saveNormalized_outcome:
  "fst (saveNormalized env iv av es w) =
     (case dropWhile (\<lambda>e. saveError env (normalized iv av e) = None) es of
        [] \<Rightarrow> Inr ()
      | e # rest \<Rightarrow>
          (case saveError env (normalized iv av e) of Some msg \<Rightarrow> Inl msg | None \<Rightarrow> Inr ()))"
  by (induction es arbitrary: w) (auto simp: save_def split: option.splits)

section \<open>Claims about the per-topic computation and the batch\<close>

text \<open>
  The per-topic computation never looks at the \<open>metrics\<close> block of its Topic.
\<close>

lemma computeRawIndicatorsForTopic_ignores_metrics:
  "computeRawIndicatorsForTopic env (t\<lparr>metrics := m\<rparr>) w = computeRawIndicatorsForTopic env t w"
  by (simp add: computeRawIndicatorsForTopic_def openAlexSignals_def
      cong: prod.case_cong sum.case_cong if_cong)

text \<open>
  What the providers answer decides the signals: for a Topic with a key, outside the
  test environment, each signal is the number in the answer to its request (\<open>0\<close>
  when the request is rejected or the number is missing), the page views being the sum
  over the items returned for the title found.
\<close>

lemma openAlexSignals_keyed:
  assumes "\<not> isTestEnv env" and "openalexID t = Some ident" and "ident \<noteq> []"
  shows "fst (openAlexSignals env t dates w) =
      (case getTopics env (calls w) ident of
         Inr (Some d) \<Rightarrow> orZero (cited_by_count d) | _ \<Rightarrow> 0,
       case getTopics env (calls w) ident of
         Inr (Some d) \<Rightarrow> orZero (works_count d) | _ \<Rightarrow> 0,
       case getWorks env (calls w @ [OpenAlexTopic ident]) ident (startDate dates) (endDate dates) of
         Inr n \<Rightarrow> orZero n | Inl e \<Rightarrow> 0)"
    and "calls (snd (openAlexSignals env t dates w)) =
      calls w @ [OpenAlexTopic ident, OpenAlexWorks ident (startDate dates) (endDate dates)]"
  using assms
  by (simp_all add: openAlexSignals_def fetchOpenAlexTopicMetrics_def
      fetchOpenAlexWorksCountLast12Months_def axios_get_def console_write_def Let_def
      split: sum.split option.split)

lemma fetchWikipediaViews12Months_answers:
  assumes "\<not> isTestEnv env" and "topicName \<noteq> []"
  shows "fst (fetchWikipediaViews12Months env topicName startC endC w) =
      (case getSearch env (calls w) topicName of
         Inr (Some title) \<Rightarrow>
           if title = [] then 0
           else (case getPageviews env (calls w @ [WikipediaSearch topicName])
                        (underscored title) startC endC of
                   Inr (Some items) \<Rightarrow> sum_list (map orZero items)
                 | _ \<Rightarrow> 0)
       | _ \<Rightarrow> 0)"
  using assms
  by (simp add: fetchWikipediaViews12Months_def axios_get_def console_write_def
      foldl_orZero_from Let_def split: sum.split option.split)

lemma keyed_topic_signals:
  assumes "\<not> isTestEnv env" and "openalexID t = Some ident" and "ident \<noteq> []" and "name t \<noteq> []"
  shows "(let dates = last12MonthsRange env;
              h1 = calls w @ [OpenAlexTopic ident];
              h2 = calls w @ [OpenAlexTopic ident,
                              OpenAlexWorks ident (startDate dates) (endDate dates)];
              h3 = calls w @ [OpenAlexTopic ident,
                              OpenAlexWorks ident (startDate dates) (endDate dates),
                              WikipediaSearch (name t)];
              cited = (case getTopics env (calls w) ident of
                         Inr (Some d) \<Rightarrow> orZero (cited_by_count d) | _ \<Rightarrow> 0);
              works = (case getTopics env (calls w) ident of
                         Inr (Some d) \<Rightarrow> orZero (works_count d) | _ \<Rightarrow> 0);
              recent = (case getWorks env h1 ident (startDate dates) (endDate dates) of
                          Inr n \<Rightarrow> orZero n | Inl e \<Rightarrow> 0);
              views = (case getSearch env h2 (name t) of
                         Inr (Some title) \<Rightarrow>
                           if title = [] then 0
                           else (case getPageviews env h3 (underscored title)
                                        (startCompact dates) (endCompact dates) of
                                   Inr (Some items) \<Rightarrow> sum_list (map orZero items)
                                 | _ \<Rightarrow> 0)
                       | _ \<Rightarrow> 0);
              estimated = estimateCitations12m (Some cited) (Some works) (Some recent)
          in fst (computeRawIndicatorsForTopic env t w) =
               \<lparr>impactRaw =
                  0.55 * log 10 (cited + 1) + 0.25 * log 10 (works + 1)
                    + 0.20 * log 10 (views + 1),
                activityRaw =
                  0.45 * log 10 (recent + 1) + 0.35 * log 10 (estimated + 1)
                    + 0.20 * log 10 (views + 1),
                raw_metrics =
                  \<lparr>citedByCount = cited, worksCount = works, worksLast12Months = recent,
                   wikiViews12Months = views, estimatedCitations12Months = estimated\<rparr>\<rparr>)"
proof -
  let ?dates = "last12MonthsRange env"
  let ?h2 = "calls w @ [OpenAlexTopic ident, OpenAlexWorks ident (startDate ?dates) (endDate ?dates)]"
  let ?h3 = "calls w @ [OpenAlexTopic ident, OpenAlexWorks ident (startDate ?dates) (endDate ?dates),
                       WikipediaSearch (name t)]"
  let ?cited = "case getTopics env (calls w) ident of
                  Inr (Some d) \<Rightarrow> orZero (cited_by_count d) | _ \<Rightarrow> 0"
  let ?works = "case getTopics env (calls w) ident of
                  Inr (Some d) \<Rightarrow> orZero (works_count d) | _ \<Rightarrow> 0"
  let ?recent = "case getWorks env (calls w @ [OpenAlexTopic ident]) ident
                        (startDate ?dates) (endDate ?dates) of
                   Inr n \<Rightarrow> orZero n | Inl e \<Rightarrow> 0"
  let ?views = "case getSearch env ?h2 (name t) of
                  Inr (Some title) \<Rightarrow>
                    if title = [] then 0
                    else (case getPageviews env ?h3
                                 (underscored title) (startCompact ?dates) (endCompact ?dates) of
                            Inr (Some items) \<Rightarrow> sum_list (map orZero items)
                          | _ \<Rightarrow> 0)
                | _ \<Rightarrow> 0"
  obtain sig w1 where o: "openAlexSignals env t ?dates w = (sig, w1)" by (metis surj_pair)
  obtain views w2 where v:
    "fetchWikipediaViews12Months env (name t) (startCompact ?dates) (endCompact ?dates) w1 =
       (views, w2)" by (metis surj_pair)
  from openAlexSignals_keyed [OF assms(1-3), of ?dates w] o
  have sig: "sig = (?cited, ?works, ?recent)" and c1: "calls w1 = ?h2"
    by simp_all
  have hh: "?h2 @ [WikipediaSearch (name t)] = ?h3" by simp
  from fetchWikipediaViews12Months_answers [OF assms(1,4),
      of "startCompact ?dates" "endCompact ?dates" w1, unfolded c1 hh] v
  have views: "views = ?views"
    by simp
  have o': "openAlexSignals env t ?dates w = ((?cited, ?works, ?recent), w1)"
    using o sig by simp
  have v': "fetchWikipediaViews12Months env (name t) (startCompact ?dates) (endCompact ?dates) w1 =
       (?views, w2)"
    using v views by simp
  have "fst (computeRawIndicatorsForTopic env t w) =
        \<lparr>impactRaw =
           0.55 * log 10 (?cited + 1) + 0.25 * log 10 (?works + 1) + 0.20 * log 10 (?views + 1),
         activityRaw =
           0.45 * log 10 (?recent + 1)
             + 0.35 * log 10 (estimateCitations12m (Some ?cited) (Some ?works) (Some ?recent) + 1)
             + 0.20 * log 10 (?views + 1),
         raw_metrics =
           \<lparr>citedByCount = ?cited, worksCount = ?works, worksLast12Months = ?recent,
            wikiViews12Months = ?views,
            estimatedCitations12Months =
              estimateCitations12m (Some ?cited) (Some ?works) (Some ?recent)\<rparr>\<rparr>"
    by (simp add: computeRawIndicatorsForTopic_def o' v' log10p_def impact_citations_def
        impact_works_def impact_wikiViews_def activity_works12m_def activity_citations12m_def
        activity_wikiViews_def Let_def)
  then show ?thesis
    unfolding Let_def .
qed

lemma unkeyed_topic_without_title:
  assumes "openalexID t = None" and "getSearch env (calls w) (name t) = Inr None"
  shows "impactRaw (fst (computeRawIndicatorsForTopic env t w)) = 0
    \<and> activityRaw (fst (computeRawIndicatorsForTopic env t w)) = 0"
  using assms
  by (simp add: computeRawIndicatorsForTopic_def openAlexSignals_def
      fetchWikipediaViews12Months_def axios_get_def console_write_def log10p_def
      estimateCitations12m_def Let_def)

text \<open>
  C5. The two raw composites are the fixed-weight sums
  \<open>0.55 log10(citedByCount + 1) + 0.25 log10(worksCount + 1) + 0.20 log10(wikiViews12m + 1)\<close>
  and \<open>0.45 log10(worksLast12m + 1) + 0.35 log10(estimatedCitations12m + 1)
  + 0.20 log10(wikiViews12m + 1)\<close>: of the signals the call returns, with the estimate
  given by \<open>estimateCitations12m\<close>, and, for a Topic with a key outside the test
  environment, of the signals resolved from the providers' answers, whatever these
  are. When every signal is \<open>0\<close> both composites are \<open>0\<close>; so they are for a Topic
  without a key whose name matches no title.
\<close>

theorem raw_composites_formula:
  "(let r = fst (computeRawIndicatorsForTopic env t w); m = raw_metrics r
    in impactRaw r =
         0.55 * log 10 (citedByCount m + 1) + 0.25 * log 10 (worksCount m + 1)
           + 0.20 * log 10 (wikiViews12Months m + 1)
     \<and> activityRaw r =
         0.45 * log 10 (worksLast12Months m + 1)
           + 0.35 * log 10 (estimatedCitations12Months m + 1)
           + 0.20 * log 10 (wikiViews12Months m + 1)
     \<and> estimatedCitations12Months m =
         estimateCitations12m (Some (citedByCount m)) (Some (worksCount m))
           (Some (worksLast12Months m))
     \<and> (citedByCount m = 0 \<and> worksCount m = 0 \<and> worksLast12Months m = 0
          \<and> wikiViews12Months m = 0 \<longrightarrow> impactRaw r = 0 \<and> activityRaw r = 0))
   \<and> (\<not> isTestEnv env \<and> openalexID t = Some ident \<and> ident \<noteq> [] \<and> name t \<noteq> [] \<longrightarrow>
        (let dates = last12MonthsRange env;
             h1 = calls w @ [OpenAlexTopic ident];
             h2 = calls w @ [OpenAlexTopic ident,
                             OpenAlexWorks ident (startDate dates) (endDate dates)];
             h3 = calls w @ [OpenAlexTopic ident,
                             OpenAlexWorks ident (startDate dates) (endDate dates),
                             WikipediaSearch (name t)];
             cited = (case getTopics env (calls w) ident of
                        Inr (Some d) \<Rightarrow> orZero (cited_by_count d) | _ \<Rightarrow> 0);
             works = (case getTopics env (calls w) ident of
                        Inr (Some d) \<Rightarrow> orZero (works_count d) | _ \<Rightarrow> 0);
             recent = (case getWorks env h1 ident (startDate dates) (endDate dates) of
                         Inr n \<Rightarrow> orZero n | Inl e \<Rightarrow> 0);
             views = (case getSearch env h2 (name t) of
                        Inr (Some title) \<Rightarrow>
                          if title = [] then 0
                          else (case getPageviews env h3 (underscored title)
                                       (startCompact dates) (endCompact dates) of
                                  Inr (Some items) \<Rightarrow> sum_list (map orZero items)
                                | _ \<Rightarrow> 0)
                      | _ \<Rightarrow> 0);
             estimated = estimateCitations12m (Some cited) (Some works) (Some recent)
         in fst (computeRawIndicatorsForTopic env t w) =
              \<lparr>impactRaw =
                 0.55 * log 10 (cited + 1) + 0.25 * log 10 (works + 1)
                   + 0.20 * log 10 (views + 1),
               activityRaw =
                 0.45 * log 10 (recent + 1) + 0.35 * log 10 (estimated + 1)
                   + 0.20 * log 10 (views + 1),
               raw_metrics =
                 \<lparr>citedByCount = cited, worksCount = works, worksLast12Months = recent,
                  wikiViews12Months = views, estimatedCitations12Months = estimated\<rparr>\<rparr>))
   \<and> (openalexID t = None \<and> getSearch env (calls w) (name t) = Inr None \<longrightarrow>
        impactRaw (fst (computeRawIndicatorsForTopic env t w)) = 0
        \<and> activityRaw (fst (computeRawIndicatorsForTopic env t w)) = 0)"
proof -
  have a: "(let r = fst (computeRawIndicatorsForTopic env t w); m = raw_metrics r
    in impactRaw r =
         0.55 * log 10 (citedByCount m + 1) + 0.25 * log 10 (worksCount m + 1)
           + 0.20 * log 10 (wikiViews12Months m + 1)
     \<and> activityRaw r =
         0.45 * log 10 (worksLast12Months m + 1)
           + 0.35 * log 10 (estimatedCitations12Months m + 1)
           + 0.20 * log 10 (wikiViews12Months m + 1)
     \<and> estimatedCitations12Months m =
         estimateCitations12m (Some (citedByCount m)) (Some (worksCount m))
           (Some (worksLast12Months m))
     \<and> (citedByCount m = 0 \<and> worksCount m = 0 \<and> worksLast12Months m = 0
          \<and> wikiViews12Months m = 0 \<longrightarrow> impactRaw r = 0 \<and> activityRaw r = 0))"
    by (simp add: computeRawIndicatorsForTopic_def Let_def log10p_def estimateCitations12m_def
        impact_citations_def impact_works_def impact_wikiViews_def activity_works12m_def
        activity_citations12m_def activity_wikiViews_def split: prod.split)
  show ?thesis
    using a keyed_topic_signals [of env t ident w] unkeyed_topic_without_title [of t env w]
    by blast
qed


theorem raw_composites_formula_witness:
  "\<not> isTestEnv providersUp \<and> openalexID cachedTopic = Some ''T-CACHED''
   \<and> name cachedTopic \<noteq> []
   \<and> fst (computeRawIndicatorsForTopic providersUp cachedTopic emptyWorld) =
       \<lparr>impactRaw = 0.55 * log 10 11 + 0.25 * log 10 6 + 0.20 * log 10 101,
        activityRaw = 0.45 * log 10 2 + 0.35 * log 10 3 + 0.20 * log 10 101,
        raw_metrics =
          \<lparr>citedByCount = 10, worksCount = 5, worksLast12Months = 1, wikiViews12Months = 100,
           estimatedCitations12Months = 2\<rparr>\<rparr>
   \<and> 0 < 0.55 * log 10 (11::real) + 0.25 * log 10 6 + 0.20 * log 10 101"
proof -
  have h: "\<not> isTestEnv providersUp \<and> openalexID cachedTopic = Some ''T-CACHED''
      \<and> ''T-CACHED'' \<noteq> [] \<and> name cachedTopic \<noteq> []"
    by (simp add: providersUp_def cachedTopic_def)
  have p: "0 < 0.55 * log 10 (11::real) + 0.25 * log 10 6 + 0.20 * log 10 101"
    by (simp add: add_pos_pos)
  from raw_composites_formula [of providersUp cachedTopic emptyWorld "''T-CACHED''"] h
  have "(let dates = last12MonthsRange providersUp;
             h1 = calls emptyWorld @ [OpenAlexTopic ''T-CACHED''];
             h2 = calls emptyWorld @ [OpenAlexTopic ''T-CACHED'',
                             OpenAlexWorks ''T-CACHED'' (startDate dates) (endDate dates)];
             h3 = calls emptyWorld @ [OpenAlexTopic ''T-CACHED'',
                             OpenAlexWorks ''T-CACHED'' (startDate dates) (endDate dates),
                             WikipediaSearch (name cachedTopic)];
             cited = (case getTopics providersUp (calls emptyWorld) ''T-CACHED'' of
                        Inr (Some d) \<Rightarrow> orZero (cited_by_count d) | _ \<Rightarrow> 0);
             works = (case getTopics providersUp (calls emptyWorld) ''T-CACHED'' of
                        Inr (Some d) \<Rightarrow> orZero (works_count d) | _ \<Rightarrow> 0);
             recent = (case getWorks providersUp h1 ''T-CACHED'' (startDate dates) (endDate dates) of
                         Inr n \<Rightarrow> orZero n | Inl e \<Rightarrow> 0);
             views = (case getSearch providersUp h2 (name cachedTopic) of
                        Inr (Some title) \<Rightarrow>
                          if title = [] then 0
                          else (case getPageviews providersUp h3 (underscored title)
                                       (startCompact dates) (endCompact dates) of
                                  Inr (Some items) \<Rightarrow> sum_list (map orZero items)
                                | _ \<Rightarrow> 0)
                      | _ \<Rightarrow> 0);
             estimated = estimateCitations12m (Some cited) (Some works) (Some recent)
         in fst (computeRawIndicatorsForTopic providersUp cachedTopic emptyWorld) =
              \<lparr>impactRaw =
                 0.55 * log 10 (cited + 1) + 0.25 * log 10 (works + 1)
                   + 0.20 * log 10 (views + 1),
               activityRaw =
                 0.45 * log 10 (recent + 1) + 0.35 * log 10 (estimated + 1)
                   + 0.20 * log 10 (views + 1),
               raw_metrics =
                 \<lparr>citedByCount = cited, worksCount = works, worksLast12Months = recent,
                  wikiViews12Months = views, estimatedCitations12Months = estimated\<rparr>\<rparr>)"
    by blast
  then have "fst (computeRawIndicatorsForTopic providersUp cachedTopic emptyWorld) =
       \<lparr>impactRaw = 0.55 * log 10 11 + 0.25 * log 10 6 + 0.20 * log 10 101,
        activityRaw = 0.45 * log 10 2 + 0.35 * log 10 3 + 0.20 * log 10 101,
        raw_metrics =
          \<lparr>citedByCount = 10, worksCount = 5, worksLast12Months = 1, wikiViews12Months = 100,
           estimatedCitations12Months = 2\<rparr>\<rparr>"
    by (simp add: providersUp_def estimateCitations12m_def Let_def)
  with h p show ?thesis by simp
qed

text \<open>
  C9, amended. When \<open>Topic.find()\<close> rejects, the batch does nothing else: no request is
  issued and nothing is saved. The entry point does not re-raise: it writes the message
  to the console and returns normally.
\<close>

theorem load_failure_absorbed:
  assumes "findError env = Some e"
  shows "computeImpactForAllTopics env w = (Inr (), console_write (ErrorComputingAll e) w)"
  using assms by (simp add: computeImpactForAllTopics_def tryAllTopics_def)

theorem load_failure_absorbed_witness:
  "findError storeDown = Some ''store unavailable''
   \<and> computeImpactForAllTopics storeDown twoTopics =
       (Inr (), twoTopics\<lparr>console := [ErrorComputingAll ''store unavailable'']\<rparr>)"
proof -
  have h: "findError storeDown = Some ''store unavailable''"
    by (simp add: storeDown_def)
  from load_failure_absorbed [OF h, of twoTopics] h show ?thesis
    by (simp add: console_write_def twoTopics_def)
qed

text \<open>
  C9, as stated, fails: with a store that rejects \<open>Topic.find()\<close> the entry point
  returns normally instead of raising the error to its caller.
\<close>

theorem load_failure_not_raised_counterexample:
  "findError storeDown = Some ''store unavailable''
   \<and> fst (computeImpactForAllTopics storeDown twoTopics) = Inr ()
   \<and> fst (computeImpactForAllTopics storeDown twoTopics) \<noteq> Inl ''store unavailable''"
  by (simp add: computeImpactForAllTopics_def tryAllTopics_def storeDown_def)

text \<open>
  C8, amended. When the Topics load (with distinct ids), every Topic gets its raw
  composites whatever the providers do, so a failed fetch stops nothing. The Topics
  before the first rejected \<open>save\<close> are stored with their rounded percentile ranks;
  that Topic and every Topic after it in load order keep their stored document for this
  run. The message of the rejected save is written to the console as the last entry
  (the completion message when no save is rejected), no request is issued after the
  first loop, and the entry point returns normally.
\<close>

theorem batch_isolation:
  assumes "findError env = None" and "distinct (map tid (db w))"
  shows "(let (rawResults, w1) =
                computeRawResults env (db w)
                  (console_write (LogFoundTopics (length (db w))) w);
              impactValues = sort (map (\<lambda>entry. fst (snd entry)) rawResults);
              activityValues = sort (map (\<lambda>entry. snd (snd entry)) rawResults);
              saved = takeWhile
                (\<lambda>entry. saveError env (normalized impactValues activityValues entry) = None)
                rawResults;
              logged =
                (case drop (length saved) rawResults of
                   [] \<Rightarrow> LogCompleted
                 | entry # rest \<Rightarrow>
                     (case saveError env (normalized impactValues activityValues entry) of
                        Some message \<Rightarrow> ErrorComputingAll message
                      | None \<Rightarrow> LogCompleted))
          in map fst rawResults = db w
           \<and> db (snd (computeImpactForAllTopics env w)) =
               map (normalized impactValues activityValues) saved @ drop (length saved) (db w)
           \<and> console (snd (computeImpactForAllTopics env w)) = console w1 @ [logged]
           \<and> calls (snd (computeImpactForAllTopics env w)) = calls w1
           \<and> fst (computeImpactForAllTopics env w) = Inr ())"
proof -
  let ?w0 = "console_write (LogFoundTopics (length (db w))) w"
  obtain rs w1 where c: "computeRawResults env (db w) ?w0 = (rs, w1)" by force
  let ?iv = "sort (map (\<lambda>entry. fst (snd entry)) rs)"
  let ?av = "sort (map (\<lambda>entry. snd (snd entry)) rs)"
  let ?ok = "\<lambda>entry. saveError env (normalized ?iv ?av entry) = None"
  let ?logged = "case drop (length (takeWhile ?ok rs)) rs of
                   [] \<Rightarrow> LogCompleted
                 | entry # rest \<Rightarrow>
                     (case saveError env (normalized ?iv ?av entry) of
                        Some message \<Rightarrow> ErrorComputingAll message
                      | None \<Rightarrow> LogCompleted)"
  obtain res w2 where sn: "saveNormalized env ?iv ?av rs w1 = (res, w2)" by force
  from computeRawResults_frame [OF c] have f: "db w1 = db w" "map fst rs = db w" by simp_all
  have d: "distinct (map tid (db w1))" using assms(2) f(1) by simp
  have "db w1 = [] @ map fst rs" using f by simp
  from saveNormalized_db [OF this d, of env ?iv ?av] sn
  have s: "db w2 = map (normalized ?iv ?av) (takeWhile ?ok rs) @ map fst (dropWhile ?ok rs)"
    by simp
  have "map fst (dropWhile ?ok rs) = drop (length (takeWhile ?ok rs)) (db w)"
    unfolding f(2) [symmetric] by (simp add: dropWhile_eq_drop drop_map)
  with s have s': "db w2 =
      map (normalized ?iv ?av) (takeWhile ?ok rs) @ drop (length (takeWhile ?ok rs)) (db w)"
    by simp
  from saveNormalized_only_db [of env ?iv ?av rs w1] sn have "w2 = w1\<lparr>db := db w2\<rparr>"
    by simp
  then have "console w2 = console (w1\<lparr>db := db w2\<rparr>)" and "calls w2 = calls (w1\<lparr>db := db w2\<rparr>)"
    by simp_all
  then have k: "console w2 = console w1" "calls w2 = calls w1" by simp_all
  have whole: "computeImpactForAllTopics env w =
      (case res of
         Inl e \<Rightarrow> (Inr (), console_write (ErrorComputingAll e) w2)
       | Inr u \<Rightarrow> (Inr (), console_write LogCompleted w2))"
    using assms(1) c sn
    by (simp add: computeImpactForAllTopics_def tryAllTopics_def Let_def split: sum.split)
  have dd: "drop (length (takeWhile ?ok rs)) rs = dropWhile ?ok rs"
    by (simp add: dropWhile_eq_drop [symmetric])
  have res: "res =
      (case dropWhile ?ok rs of
         [] \<Rightarrow> Inr ()
       | e # rest \<Rightarrow>
           (case saveError env (normalized ?iv ?av e) of Some msg \<Rightarrow> Inl msg | None \<Rightarrow> Inr ()))"
    using saveNormalized_outcome [of env ?iv ?av rs w1] sn by simp
  have lg: "console (snd (computeImpactForAllTopics env w)) = console w1 @ [?logged]"
  proof (cases "dropWhile ?ok rs")
    case Nil
    have l: "?logged = LogCompleted" unfolding dd Nil by simp
    from res have "res = Inr ()" unfolding Nil by simp
    with whole have "computeImpactForAllTopics env w = (Inr (), console_write LogCompleted w2)"
      by simp
    then have "console (snd (computeImpactForAllTopics env w)) = console w1 @ [LogCompleted]"
      using k by (simp add: console_write_def)
    then show ?thesis unfolding l .
  next
    case (Cons e rest)
    then have "\<not> ?ok e" using hd_dropWhile [of ?ok rs] by simp
    then obtain msg where m: "saveError env (normalized ?iv ?av e) = Some msg" by auto
    have l: "?logged = ErrorComputingAll msg" unfolding dd Cons by (simp add: m)
    from res have "res = Inl msg" unfolding Cons by (simp add: m)
    with whole have "computeImpactForAllTopics env w =
        (Inr (), console_write (ErrorComputingAll msg) w2)"
      by simp
    then have "console (snd (computeImpactForAllTopics env w)) =
        console w1 @ [ErrorComputingAll msg]"
      using k by (simp add: console_write_def)
    then show ?thesis unfolding l .
  qed
  have r: "db (snd (computeImpactForAllTopics env w)) = db w2"
    and cl: "calls (snd (computeImpactForAllTopics env w)) = calls w1"
    and q: "fst (computeImpactForAllTopics env w) = Inr ()"
    using whole k by (simp_all split: sum.split)
  from c f(2) r s' lg cl q show ?thesis by (simp add: Let_def)
qed

theorem batch_isolation_witness:
  "findError secondSaveFails = None \<and> distinct (map tid (db twoTopics))
   \<and> db (snd (computeImpactForAllTopics secondSaveFails twoTopics)) =
       [topicA\<lparr>activity := 50, impact := 50\<rparr>, topicB]
   \<and> console (snd (computeImpactForAllTopics secondSaveFails twoTopics)) =
       [LogFoundTopics 2,
        ErrorOpenAlexMetrics ''Topic A'' ''unavailable'',
        ErrorOpenAlexWorks12m ''Topic A'' ''unavailable'',
        WarnWikipediaPageviews ''Topic A'' ''unavailable'',
        ErrorOpenAlexMetrics ''Topic B'' ''unavailable'',
        ErrorOpenAlexWorks12m ''Topic B'' ''unavailable'',
        WarnWikipediaPageviews ''Topic B'' ''unavailable'',
        ErrorComputingAll ''write failed'']
   \<and> fst (computeImpactForAllTopics secondSaveFails twoTopics) = Inr ()"
proof -
  have h1: "findError secondSaveFails = None"
    by (simp add: secondSaveFails_def providersDown_def)
  have h2: "distinct (map tid (db twoTopics))"
    by (simp add: twoTopics_def topicA_def topicB_def)
  have c: "computeRawResults secondSaveFails (db twoTopics)
             (console_write (LogFoundTopics (length (db twoTopics))) twoTopics) =
           ([(topicA, 0, 0), (topicB, 0, 0)],
            \<lparr>db = [topicA, topicB],
             calls = [OpenAlexTopic ''T-A'', OpenAlexWorks ''T-A'' ''2025-11-02'' ''2026-11-02'',
                      WikipediaSearch ''Topic A'',
                      OpenAlexTopic ''T-A'', OpenAlexWorks ''T-A'' ''2025-11-02'' ''2026-11-02'',
                      WikipediaSearch ''Topic B''],
             console = [LogFoundTopics 2,
                        ErrorOpenAlexMetrics ''Topic A'' ''unavailable'',
                        ErrorOpenAlexWorks12m ''Topic A'' ''unavailable'',
                        WarnWikipediaPageviews ''Topic A'' ''unavailable'',
                        ErrorOpenAlexMetrics ''Topic B'' ''unavailable'',
                        ErrorOpenAlexWorks12m ''Topic B'' ''unavailable'',
                        WarnWikipediaPageviews ''Topic B'' ''unavailable'']\<rparr>)"
    by (simp add: axios_get_def console_write_def fetchOpenAlexTopicMetrics_def
           fetchOpenAlexWorksCountLast12Months_def fetchWikipediaViews12Months_def openAlexSignals_def
           computeRawIndicatorsForTopic_def log10p_def estimateCitations12m_def underscored_def
           impact_citations_def impact_works_def impact_wikiViews_def activity_works12m_def
           activity_citations12m_def activity_wikiViews_def secondSaveFails_def providersDown_def
           exampleRange_def twoTopics_def topicA_def topicB_def defaultMetrics_def)
  from batch_isolation [OF h1 h2] h1 h2 show ?thesis
    by (simp add: c)
      (simp add: normalized_def percentileRank_def findIndex_def findLastIndex_def
          toFixed2_def secondSaveFails_def providersDown_def twoTopics_def topicA_def topicB_def
          defaultMetrics_def)
qed

text \<open>
  C8, as stated, fails: when the save of the first of two Topics is rejected, the
  second Topic, whose own save would succeed, is not persisted either and keeps its
  prior score \<open>7\<close>.
\<close>

theorem failed_save_stops_batch_counterexample:
  "saveError firstSaveFails (normalized [0, 0] [0, 0] (topicB, 0, 0)) = None
   \<and> db (snd (computeImpactForAllTopics firstSaveFails twoTopics)) = [topicA, topicB]
   \<and> impact topicB = 7"
  by (simp add: axios_get_def console_write_def fetchOpenAlexTopicMetrics_def
         fetchOpenAlexWorksCountLast12Months_def fetchWikipediaViews12Months_def openAlexSignals_def
         computeRawIndicatorsForTopic_def log10p_def estimateCitations12m_def underscored_def
         impact_citations_def impact_works_def impact_wikiViews_def activity_works12m_def
         activity_citations12m_def activity_wikiViews_def save_def computeImpactForAllTopics_def
         tryAllTopics_def normalized_def percentileRank_def findIndex_def findLastIndex_def
         toFixed2_def firstSaveFails_def providersDown_def exampleRange_def twoTopics_def topicA_def
         topicB_def defaultMetrics_def)

text \<open>
  C1 on the code. The Topic \<open>cachedTopic\<close> carries cached values \<open>500, 50, 5, 2500\<close>
  fetched at the moment of the call, so every source is fresh. The computation still
  issues four provider requests and takes its signals from the answers.
\<close>

theorem fresh_cache_ignored:
  "calls (snd (computeRawIndicatorsForTopic providersUp cachedTopic emptyWorld)) =
     [OpenAlexTopic ''T-CACHED'', OpenAlexWorks ''T-CACHED'' ''2025-11-02'' ''2026-11-02'',
      WikipediaSearch ''Cached Topic'', WikimediaPageviews ''Physics'' ''20251102'' ''20261102'']
   \<and> raw_metrics (fst (computeRawIndicatorsForTopic providersUp cachedTopic emptyWorld)) =
     \<lparr>citedByCount = 10, worksCount = 5, worksLast12Months = 1, wikiViews12Months = 100,
      estimatedCitations12Months = 2\<rparr>"
  by (simp add: axios_get_def console_write_def fetchOpenAlexTopicMetrics_def
         fetchOpenAlexWorksCountLast12Months_def fetchWikipediaViews12Months_def openAlexSignals_def
         computeRawIndicatorsForTopic_def log10p_def estimateCitations12m_def underscored_def
         impact_citations_def impact_works_def impact_wikiViews_def activity_works12m_def
         activity_citations12m_def activity_wikiViews_def providersUp_def cachedTopic_def
         emptyWorld_def defaultMetrics_def exampleRange_def)

text \<open>
  C7 on the code. With every provider rejecting, the computation returns (nothing is
  raised), but each failed source contributes \<open>0\<close>, not the value cached in the
  Topic (\<open>500, 50, 5, 2500\<close>).
\<close>

theorem failed_fetch_contributes_zero:
  "raw_metrics (fst (computeRawIndicatorsForTopic providersDown staleTopic emptyWorld)) =
     \<lparr>citedByCount = 0, worksCount = 0, worksLast12Months = 0, wikiViews12Months = 0,
      estimatedCitations12Months = 0\<rparr>
   \<and> openalex_citedByCount (metrics staleTopic) = 500
   \<and> openalex_worksCount (metrics staleTopic) = 50
   \<and> openalex_worksLast12Months (metrics staleTopic) = 5
   \<and> wikipedia_views12Months (metrics staleTopic) = 2500"
  by (simp add: axios_get_def console_write_def fetchOpenAlexTopicMetrics_def
         fetchOpenAlexWorksCountLast12Months_def fetchWikipediaViews12Months_def openAlexSignals_def
         computeRawIndicatorsForTopic_def log10p_def estimateCitations12m_def underscored_def
         impact_citations_def impact_works_def impact_wikiViews_def activity_works12m_def
         activity_citations12m_def activity_wikiViews_def providersDown_def staleTopic_def
         cachedTopic_def emptyWorld_def defaultMetrics_def exampleRange_def)

text \<open>
  C2 on the code. After a computation in which every fetch failed, the stored Topic
  has neither \<open>lastError\<close> nor \<open>backoffUntil\<close> set, and a second computation
  right after it issues the same three requests again.
\<close>

theorem no_backoff_after_failure:
  "(case computeImpactForTopic providersDown staleTopic staleWorld of
      (saved, w1) \<Rightarrow>
        map (\<lambda>t. (lastError (metrics t), backoffUntil (metrics t))) (db w1) = [(None, None)]
        \<and> calls w1 =
            [OpenAlexTopic ''T-CACHED'', OpenAlexWorks ''T-CACHED'' ''2025-11-02'' ''2026-11-02'',
             WikipediaSearch ''Cached Topic'']
        \<and> (case saved of
              None \<Rightarrow> False
            | Some t1 \<Rightarrow>
                calls (snd (computeImpactForTopic providersDown t1 w1)) =
                  [OpenAlexTopic ''T-CACHED'',
                   OpenAlexWorks ''T-CACHED'' ''2025-11-02'' ''2026-11-02'',
                   WikipediaSearch ''Cached Topic'',
                   OpenAlexTopic ''T-CACHED'',
                   OpenAlexWorks ''T-CACHED'' ''2025-11-02'' ''2026-11-02'',
                   WikipediaSearch ''Cached Topic'']))"
  by (simp add: axios_get_def console_write_def fetchOpenAlexTopicMetrics_def
         fetchOpenAlexWorksCountLast12Months_def fetchWikipediaViews12Months_def openAlexSignals_def
         computeRawIndicatorsForTopic_def log10p_def estimateCitations12m_def underscored_def
         impact_citations_def impact_works_def impact_wikiViews_def activity_works12m_def
         activity_citations12m_def activity_wikiViews_def save_def computeImpactForTopic_def
         providersDown_def staleTopic_def cachedTopic_def staleWorld_def defaultMetrics_def
         exampleRange_def Let_def)

text \<open>
  C3 on the code. Two Topics share the \<open>openalexID\<close> \<open>T-A\<close> and resolve to the
  title \<open>Physics\<close>: one run of the batch fetches the totals, the recent works and
  the page views of that key twice each.
\<close>

theorem shared_keys_fetched_twice:
  "calls (snd (computeImpactForAllTopics providersUp twoTopics)) =
     [OpenAlexTopic ''T-A'', OpenAlexWorks ''T-A'' ''2025-11-02'' ''2026-11-02'',
      WikipediaSearch ''Topic A'', WikimediaPageviews ''Physics'' ''20251102'' ''20261102'',
      OpenAlexTopic ''T-A'', OpenAlexWorks ''T-A'' ''2025-11-02'' ''2026-11-02'',
      WikipediaSearch ''Topic B'', WikimediaPageviews ''Physics'' ''20251102'' ''20261102'']"
  by (simp add: axios_get_def console_write_def fetchOpenAlexTopicMetrics_def
         fetchOpenAlexWorksCountLast12Months_def fetchWikipediaViews12Months_def openAlexSignals_def
         computeRawIndicatorsForTopic_def log10p_def estimateCitations12m_def underscored_def
         impact_citations_def impact_works_def impact_wikiViews_def activity_works12m_def
         activity_citations12m_def activity_wikiViews_def save_def computeImpactForAllTopics_def
         tryAllTopics_def normalized_def percentileRank_def findIndex_def findLastIndex_def
         toFixed2_def providersUp_def twoTopics_def topicA_def topicB_def defaultMetrics_def
         exampleRange_def)

section \<open>The second copy on the same inputs\<close>

text \<open>
  On each input above the second copy of the module does what the first does not.
\<close>

text \<open>With every source fresh: no request, and the cached values as signals.\<close>

lemma fresh_cache_reused_v2:
  "calls (snd (computeRawIndicatorsForTopic_v2 providersUp cachedTopic createRunCache emptyWorld)) = []
   \<and> raw_metrics (fst (fst (fst
        (computeRawIndicatorsForTopic_v2 providersUp cachedTopic createRunCache emptyWorld)))) =
     \<lparr>citedByCount = 500, worksCount = 50, worksLast12Months = 5, wikiViews12Months = 2500,
      estimatedCitations12Months = 50\<rparr>"
  by (simp add: CACHE_TTL_MS_openalexAllTime_def CACHE_TTL_MS_openalexWorks12m_def
         CACHE_TTL_MS_wikipediaViews_def BACKOFF_MS_def createRunCache_def isFresh_def setBackoff_def
         fetchOpenAlexTopicMetrics_v2_def fetchOpenAlexWorksCountLast12Months_v2_def
         fetchWikipediaTitle_def fetchWikipediaViews12Months_v2_def openAlexTotals_v2_def
         openAlexWorks12m_v2_def wikipediaTitle_v2_def wikipediaViews_v2_def
         computeRawIndicatorsForTopic_v2_def axios_get_def console_write_def log10p_def
         estimateCitations12m_def underscored_def impact_citations_def impact_works_def
         impact_wikiViews_def activity_works12m_def activity_citations12m_def activity_wikiViews_def
         providersUp_def cachedTopic_def emptyWorld_def defaultMetrics_def exampleRange_def Let_def)

text \<open>With every provider rejecting: the cached values as signals.\<close>

lemma failed_fetch_keeps_cached_v2:
  "raw_metrics (fst (fst (fst
        (computeRawIndicatorsForTopic_v2 providersDown staleTopic createRunCache emptyWorld)))) =
     \<lparr>citedByCount = 500, worksCount = 50, worksLast12Months = 5, wikiViews12Months = 2500,
      estimatedCitations12Months = 50\<rparr>"
  by (simp add: CACHE_TTL_MS_openalexAllTime_def CACHE_TTL_MS_openalexWorks12m_def
         CACHE_TTL_MS_wikipediaViews_def BACKOFF_MS_def createRunCache_def isFresh_def setBackoff_def
         fetchOpenAlexTopicMetrics_v2_def fetchOpenAlexWorksCountLast12Months_v2_def
         fetchWikipediaTitle_def fetchWikipediaViews12Months_v2_def openAlexTotals_v2_def
         openAlexWorks12m_v2_def wikipediaTitle_v2_def wikipediaViews_v2_def
         computeRawIndicatorsForTopic_v2_def axios_get_def console_write_def log10p_def
         estimateCitations12m_def underscored_def impact_citations_def impact_works_def
         impact_wikiViews_def activity_works12m_def activity_citations12m_def activity_wikiViews_def
         providersDown_def staleTopic_def cachedTopic_def emptyWorld_def defaultMetrics_def
         exampleRange_def Let_def)

text \<open>
  With every provider rejecting: \<open>lastError\<close> and \<open>backoffUntil\<close> (a day after
  \<open>now\<close>) are stored, the cached values and their times are untouched, and a second
  computation issues no request.
\<close>

lemma backoff_after_failure_v2:
  "(case computeImpactForTopic_v2 providersDown staleTopic staleWorld of
      (saved, w1) \<Rightarrow>
        map (\<lambda>t. (lastError (metrics t), backoffUntil (metrics t))) (db w1) =
          [(Some ''wikipedia-views: unavailable'', Some (1793577600000 + 86400000))]
        \<and> map (\<lambda>t. (metrics t)\<lparr>lastError := None, backoffUntil := None, lastComputedAt := None\<rparr>)
             (db w1) = [metrics staleTopic]
        \<and> calls w1 =
            [OpenAlexTopic ''T-CACHED'', OpenAlexWorks ''T-CACHED'' ''2025-11-02'' ''2026-11-02'',
             WikimediaPageviews ''Cached_Topic'' ''20251102'' ''20261102'']
        \<and> (case saved of
              None \<Rightarrow> False
            | Some t1 \<Rightarrow> calls (snd (computeImpactForTopic_v2 providersDown t1 w1)) = calls w1))"
  by (simp add: CACHE_TTL_MS_openalexAllTime_def CACHE_TTL_MS_openalexWorks12m_def
         CACHE_TTL_MS_wikipediaViews_def BACKOFF_MS_def createRunCache_def isFresh_def setBackoff_def
         fetchOpenAlexTopicMetrics_v2_def fetchOpenAlexWorksCountLast12Months_v2_def
         fetchWikipediaTitle_def fetchWikipediaViews12Months_v2_def openAlexTotals_v2_def
         openAlexWorks12m_v2_def wikipediaTitle_v2_def wikipediaViews_v2_def
         computeRawIndicatorsForTopic_v2_def axios_get_def console_write_def log10p_def
         estimateCitations12m_def underscored_def impact_citations_def impact_works_def
         impact_wikiViews_def activity_works12m_def activity_citations12m_def activity_wikiViews_def
         save_def computeImpactForTopic_v2_def providersDown_def staleTopic_def cachedTopic_def
         staleWorld_def defaultMetrics_def exampleRange_def Let_def)

text \<open>Two Topics with one \<open>openalexID\<close> and one title: each key is fetched once.\<close>

lemma shared_keys_fetched_once_v2:
  "calls (snd (computeImpactForAllTopics_v2 providersUp twoTopics)) =
     [OpenAlexTopic ''T-A'', OpenAlexWorks ''T-A'' ''2025-11-02'' ''2026-11-02'',
      WikipediaSearch ''Topic A'', WikimediaPageviews ''Physics'' ''20251102'' ''20261102'',
      WikipediaSearch ''Topic B'']"
  by (simp add: CACHE_TTL_MS_openalexAllTime_def CACHE_TTL_MS_openalexWorks12m_def
         CACHE_TTL_MS_wikipediaViews_def BACKOFF_MS_def createRunCache_def isFresh_def setBackoff_def
         fetchOpenAlexTopicMetrics_v2_def fetchOpenAlexWorksCountLast12Months_v2_def
         fetchWikipediaTitle_def fetchWikipediaViews12Months_v2_def openAlexTotals_v2_def
         openAlexWorks12m_v2_def wikipediaTitle_v2_def wikipediaViews_v2_def
         computeRawIndicatorsForTopic_v2_def axios_get_def console_write_def log10p_def
         estimateCitations12m_def underscored_def impact_citations_def impact_works_def
         impact_wikiViews_def activity_works12m_def activity_citations12m_def activity_wikiViews_def
         save_def computeImpactForAllTopics_v2_def normalized_v2_def normalized_def
         percentileRank_def findIndex_def findLastIndex_def toFixed2_def providersUp_def
         twoTopics_def topicA_def topicB_def defaultMetrics_def exampleRange_def Let_def)

text \<open>
  In general: with an empty run cache and every source fresh, the second copy issues no
  request and takes its signals from the Topic.
\<close>

lemma openAlexTotals_v2_fresh:
  assumes "cache_openalex c ident = None"
    and "isFresh (openalex_lastFetchedAt m) CACHE_TTL_MS_openalexAllTime (currentTime env)"
  shows "openAlexTotals_v2 env t ident signals (m, c, w) =
    ((openalex_citedByCount m, openalex_worksCount m), (m, c, w))"
  using assms by (simp add: openAlexTotals_v2_def Let_def)

lemma openAlexWorks12m_v2_fresh:
  assumes "cache_openalexWorks12m c = Map.empty"
    and "isFresh (openalex_lastWorksFetchedAt m) CACHE_TTL_MS_openalexWorks12m (currentTime env)"
  shows "openAlexWorks12m_v2 env t ident dates recent (m, c, w) =
    (openalex_worksLast12Months m, (m, c, w))"
  using assms by (simp add: openAlexWorks12m_v2_def Let_def)

lemma wikipediaTitle_v2_fresh:
  assumes "cache_wikiTitle c = Map.empty"
    and "isFresh (wikipedia_lastFetchedAt m) CACHE_TTL_MS_wikipediaViews (currentTime env)"
  shows "wikipediaTitle_v2 env t (m, c, w) = (wikipedia_title m, (m, c, w))"
  using assms by (simp add: wikipediaTitle_v2_def Let_def)

lemma wikipediaViews_v2_fresh:
  assumes "cache_wikiViews c = Map.empty"
    and "isFresh (wikipedia_lastFetchedAt m) CACHE_TTL_MS_wikipediaViews (currentTime env)"
  shows "wikipediaViews_v2 env dates (wikipedia_title m) (wikipedia_views12Months m) (m, c, w) =
    (wikipedia_views12Months m, (m, c, w))"
proof -
  from assms(2) obtain fetchedAt where "wikipedia_lastFetchedAt m = Some fetchedAt"
    by (auto simp: isFresh_def split: option.splits)
  with assms show ?thesis
    by (cases "wikipedia_title m") (simp_all add: wikipediaViews_v2_def Let_def)
qed

lemma fresh_sources_no_fetch_v2:
  assumes "isFresh (openalex_lastFetchedAt (metrics t)) CACHE_TTL_MS_openalexAllTime (currentTime env)"
    and "isFresh (openalex_lastWorksFetchedAt (metrics t)) CACHE_TTL_MS_openalexWorks12m (currentTime env)"
    and "isFresh (wikipedia_lastFetchedAt (metrics t)) CACHE_TTL_MS_wikipediaViews (currentTime env)"
  shows "calls (snd (computeRawIndicatorsForTopic_v2 env t createRunCache w)) = calls w
   \<and> raw_metrics (fst (fst (fst (computeRawIndicatorsForTopic_v2 env t createRunCache w)))) =
       \<lparr>citedByCount = openalex_citedByCount (metrics t),
        worksCount = openalex_worksCount (metrics t),
        worksLast12Months = openalex_worksLast12Months (metrics t),
        wikiViews12Months = wikipedia_views12Months (metrics t),
        estimatedCitations12Months =
          estimateCitations12m (Some (openalex_citedByCount (metrics t)))
            (Some (openalex_worksCount (metrics t)))
            (Some (openalex_worksLast12Months (metrics t)))\<rparr>"
proof -
  have e: "cache_openalex createRunCache ident = None"
    "cache_openalexWorks12m createRunCache = Map.empty"
    "cache_wikiTitle createRunCache = Map.empty"
    "cache_wikiViews createRunCache = Map.empty" for ident
    by (simp_all add: createRunCache_def)
  show ?thesis
    by (simp add: computeRawIndicatorsForTopic_v2_def Let_def
        openAlexTotals_v2_fresh [OF e(1) assms(1)] openAlexWorks12m_v2_fresh [OF e(2) assms(2)]
        wikipediaTitle_v2_fresh [OF e(3) assms(3)] wikipediaViews_v2_fresh [OF e(4) assms(3)])
qed

text \<open>In general: while the back-off lasts, the second copy issues no request.\<close>

lemma backoff_no_fetch_v2:
  assumes "backoffUntil (metrics t) = Some until" and "currentTime env < until"
  shows "calls (snd (computeRawIndicatorsForTopic_v2 env t runCache w)) = calls w
   \<and> raw_metrics (fst (fst (fst (computeRawIndicatorsForTopic_v2 env t runCache w)))) =
       \<lparr>citedByCount = openalex_citedByCount (metrics t),
        worksCount = openalex_worksCount (metrics t),
        worksLast12Months = openalex_worksLast12Months (metrics t),
        wikiViews12Months = wikipedia_views12Months (metrics t),
        estimatedCitations12Months =
          estimateCitations12m (Some (openalex_citedByCount (metrics t)))
            (Some (openalex_worksCount (metrics t)))
            (Some (openalex_worksLast12Months (metrics t)))\<rparr>"
  using assms by (simp add: computeRawIndicatorsForTopic_v2_def Let_def)

end
